theory Spec2Isabelle
  imports Main "HOL-Library.AList"
begin

section \<open>Python string primitives used by jni_generator.py\<close>

text \<open>
  The generator is a Python 2 script: \<open>str\<close> is a byte string, modelled as
  \<open>string\<close>. Each primitive below computes what the Python built-in computes.
\<close>

definition startswith :: "string \<Rightarrow> string \<Rightarrow> bool" where
  "startswith s p = (take (length p) s = p)"

definition endswith :: "string \<Rightarrow> string \<Rightarrow> bool" where
  "endswith s p = (length p \<le> length s \<and> drop (length s - length p) s = p)"

text \<open>\<open>sub in s\<close> for strings: \<open>sub\<close> occurs in \<open>s\<close> as a contiguous run.\<close>

fun py_in :: "string \<Rightarrow> string \<Rightarrow> bool" where
  "py_in sub [] = (sub = [])"
| "py_in sub (c # cs) = (startswith (c # cs) sub \<or> py_in sub cs)"

text \<open>
  \<open>s.replace(old, new)\<close>: the occurrences of \<open>old\<close> are replaced from left to
  right, without overlap. For an empty \<open>old\<close> Python puts \<open>new\<close> before every
  character and at the end.
\<close>

fun py_replace :: "string \<Rightarrow> string \<Rightarrow> string \<Rightarrow> string" where
  "py_replace old new [] = (if old = [] then new else [])"
| "py_replace old new (c # cs) =
     (if old = [] then new @ concat (map (\<lambda>x. x # new) (c # cs))
      else if startswith (c # cs) old
        then new @ py_replace old new (drop (length old) (c # cs))
      else c # py_replace old new cs)"

text \<open>
  \<open>s.split(sep)\<close> for a non-empty separator (every call site passes a literal):
  the empty string splits into one empty piece, and a separator at the end gives an empty
  last piece.
\<close>

fun py_split :: "string \<Rightarrow> string \<Rightarrow> string list" where
  "py_split sep [] = [[]]"
| "py_split sep (c # cs) =
     (if sep \<noteq> [] \<and> startswith (c # cs) sep
        then [] # py_split sep (drop (length sep) (c # cs))
      else (case py_split sep cs of
              w # ws \<Rightarrow> (c # w) # ws
            | [] \<Rightarrow> [[c]]))"

declare py_in.simps [simp del] py_replace.simps [simp del] py_split.simps [simp del]

fun py_join :: "string \<Rightarrow> string list \<Rightarrow> string" where
  "py_join sep [] = []"
| "py_join sep [x] = x"
| "py_join sep (x # y # ys) = x @ sep @ py_join sep (y # ys)"

text \<open>Whitespace of \<open>str.strip()\<close>: space, tab, newline, carriage return, VT, FF.\<close>

definition isspace :: "char \<Rightarrow> bool" where
  "isspace c = (c \<in> set [CHR '' '', CHR 0x09, CHR 0x0A, CHR 0x0D, CHR 0x0B, CHR 0x0C])"

definition py_strip :: "string \<Rightarrow> string" where
  "py_strip s = rev (dropWhile isspace (rev (dropWhile isspace s)))"

text \<open>\<open>c.isupper()\<close> and \<open>c.upper()\<close> on a one-character byte string (C locale).\<close>

definition isupper :: "char \<Rightarrow> bool" where
  "isupper c = (c \<in> set ''ABCDEFGHIJKLMNOPQRSTUVWXYZ'')"

definition upper :: "char \<Rightarrow> char" where
  "upper c = (case map_of (zip ''abcdefghijklmnopqrstuvwxyz'' ''ABCDEFGHIJKLMNOPQRSTUVWXYZ'') c of
                Some u \<Rightarrow> u
              | None \<Rightarrow> c)"

text \<open>The character class \<open>[0-9a-zA-Z_]\<close>.\<close>

definition is_identifier_char :: "char \<Rightarrow> bool" where
  "is_identifier_char c =
     (c \<in> set ''0123456789abcdefghijklmnopqrstuvwxyzABCDEFGHIJKLMNOPQRSTUVWXYZ_'')"

section \<open>Exceptions\<close>

text \<open>
  Every \<open>raise\<close> and failing \<open>assert\<close> of the source is a value of \<open>error\<close>;
  a function that can raise returns \<open>error + 'a\<close>. \<open>ParseError\<close> is the
  generator's own exception class (description and context lines); the others are
  Python built-ins, \<open>SyntaxError\<close> and \<open>RuntimeError\<close> with their message and
  \<open>IOError\<close> with the path that could not be read.
\<close>

datatype error =
    ParseError string "string list"
  | SyntaxError string
  | RuntimeError string
  | AssertionError
  | IndexError
  | IOError string

section \<open>JniParams: the per-file resolution state and the type resolver\<close>

text \<open>
  \<open>JniParams\<close> keeps its state in class attributes (the fields carry the prefix
  \<open>jp_\<close> here). \<open>jp_implicit_imports\<close> holds the
  lines of the file \<open>android_jar.classes\<close>, which \<open>_CheckImplicitImports\<close> reads
  on first use and then keeps; the file is not among the sources, so its lines are a
  parameter of the model.
\<close>

record JniParams =
  jp_imports :: "string list"
  jp_fully_qualified_class :: string
  jp_package :: string
  jp_inner_classes :: "string list"
  jp_implicit_imports :: "string list"

definition JniParams_initial :: "string list \<Rightarrow> JniParams" where
  "JniParams_initial android_jar_classes =
     \<lparr>jp_imports = [], jp_fully_qualified_class = [], jp_package = [],
      jp_inner_classes = [], jp_implicit_imports = android_jar_classes\<rparr>"

definition SetFullyQualifiedClass :: "string \<Rightarrow> JniParams \<Rightarrow> JniParams" where
  "SetFullyQualifiedClass fqc st =
     st\<lparr>jp_fully_qualified_class := ''L'' @ fqc,
        jp_package := py_join ''/'' (butlast (py_split ''/'' fqc))\<rparr>"

definition pod_param_map :: "(string \<times> string) list" where
  "pod_param_map =
     [(''int'', ''I''), (''boolean'', ''Z''), (''char'', ''C''), (''short'', ''S''),
      (''long'', ''J''), (''double'', ''D''), (''float'', ''F''), (''byte'', ''B''),
      (''void'', ''V'')]"

definition object_param_list :: "string list" where
  "object_param_list =
     [''Ljava/lang/Boolean'', ''Ljava/lang/Integer'', ''Ljava/lang/Long'',
      ''Ljava/lang/Object'', ''Ljava/lang/String'', ''Ljava/lang/Class'',
      ''Ljava/lang/CharSequence'', ''Ljava/lang/Runnable'', ''Ljava/lang/Throwable'']"

text \<open>
  The loop \<open>while param[-2:] == '[]'\<close>: one \<open>[\<close> is added to the prefix for each
  trailing array marker removed.
\<close>

function strip_arrays :: "string \<Rightarrow> string \<Rightarrow> string \<times> string" where
  "strip_arrays prefix param =
     (if endswith param ''[]''
        then strip_arrays (prefix @ ''['') (take (length param - 2) param)
      else (prefix, param))"
  by pat_completeness auto
termination
  by (relation "measure (\<lambda>(prefix, param). length param)") (auto simp: endswith_def)

declare strip_arrays.simps [simp del]

text \<open>\<open>if '<' in param: param = param[:param.index('<')]\<close>\<close>

definition strip_generic :: "string \<Rightarrow> string" where
  "strip_generic param = takeWhile (\<lambda>c. c \<noteq> CHR ''<'') param"

definition implicit_import_name :: "string \<Rightarrow> string" where
  "implicit_import_name line =
     py_replace ''/'' ''.'' (py_replace ''.class'' [] (py_strip line))"

definition ambiguous_class_message :: "string \<Rightarrow> string \<Rightarrow> string" where
  "ambiguous_class_message param implicit_import =
     ''Ambiguous class ('' @ param @ '') can not be used directly ''
       @ ''by JNI.'' @ [CHR 0x0A] @ ''Please import it, probably:''
       @ [CHR 0x0A, CHR 0x0A] @ ''import '' @ implicit_import @ '';''"

definition CheckImplicitImports :: "JniParams \<Rightarrow> string \<Rightarrow> error + unit" where
  "CheckImplicitImports st param =
     (case find (\<lambda>implicit_import. endswith implicit_import (''.'' @ param))
             (map implicit_import_name (jp_implicit_imports st)) of
        Some implicit_import \<Rightarrow>
          Inl (SyntaxError (ambiguous_class_message param implicit_import))
      | None \<Rightarrow> Inr ())"

text \<open>
  \<open>len(components) > 2 and components[-2][0].isupper()\<close>: indexing the empty
  string raises \<open>IndexError\<close>.
\<close>

definition inner_class_import :: "string \<Rightarrow> error + bool" where
  "inner_class_import qualified_name =
     (let components = py_split ''/'' qualified_name in
      if length components > 2 then
        (case components ! (length components - 2) of
           [] \<Rightarrow> Inl IndexError
         | c # _ \<Rightarrow> Inr (isupper c))
      else Inr False)"

definition inner_import_message :: "string \<Rightarrow> string \<Rightarrow> string" where
  "inner_import_message qualified_name param =
     ''Inner class ('' @ qualified_name @ '') can not be imported ''
       @ ''and used by JNI ('' @ param @ ''). Please import the outer ''
       @ ''class and use Outer.Inner instead.''"

text \<open>
  The test of the first loop, over the well-known classes, the class of the file and the
  inner classes, and the test of the loop over the imports.
\<close>

definition known_class_match :: "string \<Rightarrow> string \<Rightarrow> bool" where
  "known_class_match param qualified_name =
     (endswith qualified_name (''/'' @ param) \<or>
      endswith qualified_name (''$'' @ py_replace ''.'' ''$'' param) \<or>
      qualified_name = ''L'' @ param)"

definition import_match :: "string \<Rightarrow> string \<Rightarrow> bool" where
  "import_match param qualified_name = endswith qualified_name (''/'' @ param)"

text \<open>The part of \<open>JavaToJni\<close> after the array markers and the generic suffix are gone.\<close>

definition resolve :: "JniParams \<Rightarrow> string \<Rightarrow> string \<Rightarrow> error + string" where
  "resolve st prefix param =
     (case map_of pod_param_map param of
        Some code \<Rightarrow> Inr (prefix @ code)
      | None \<Rightarrow>
     if CHR ''/'' \<in> set param then Inr (prefix @ ''L'' @ param @ '';'')
     else
     (case find (known_class_match param)
             (object_param_list @ [jp_fully_qualified_class st] @ jp_inner_classes st) of
        Some qualified_name \<Rightarrow> Inr (prefix @ qualified_name @ '';'')
      | None \<Rightarrow>
     (case find (import_match param) (jp_imports st) of
        Some qualified_name \<Rightarrow>
          (case inner_class_import qualified_name of
             Inl e \<Rightarrow> Inl e
           | Inr True \<Rightarrow> Inl (SyntaxError (inner_import_message qualified_name param))
           | Inr False \<Rightarrow> Inr (prefix @ qualified_name @ '';''))
      | None \<Rightarrow>
     if CHR ''.'' \<in> set param then
       (let components = py_split ''.'' param;
            outer = py_join ''/'' (butlast components);
            inner = last components in
        case find (import_match outer) (jp_imports st) of
          Some qualified_name \<Rightarrow> Inr (prefix @ qualified_name @ ''$'' @ inner @ '';'')
        | None \<Rightarrow>
            Inl (SyntaxError (''Inner class ('' @ param @ '') can not be ''
                   @ ''used directly by JNI. Please import the outer ''
                   @ ''class, probably:'' @ [CHR 0x0A] @ ''import ''
                   @ py_replace ''/'' ''.'' (jp_package st) @ ''.''
                   @ py_replace ''/'' ''.'' outer @ '';'')))
     else
     (case CheckImplicitImports st param of
        Inl e \<Rightarrow> Inl e
      | Inr _ \<Rightarrow> Inr (prefix @ ''L'' @ jp_package st @ ''/'' @ param @ '';'')))))"

definition JavaToJni :: "JniParams \<Rightarrow> string \<Rightarrow> error + string" where
  "JavaToJni st param =
     (case strip_arrays [] param of
        (prefix, param1) \<Rightarrow> resolve st prefix (strip_generic param1))"

section \<open>Parameters and method descriptions\<close>

record Param =
  p_datatype :: string
  p_name :: string

text \<open>\<open>'p%s' % n\<close>: the decimal digits of a list length.\<close>

fun str_nat :: "nat \<Rightarrow> string" where
  "str_nat n =
     (if n < 10 then [''0123456789'' ! n]
      else str_nat (n div 10) @ [''0123456789'' ! (n mod 10)])"

declare str_nat.simps [simp del]

text \<open>
  One parameter of \<open>JniParams.Parse\<close>: the leading annotations are deleted, the first
  \<open>final\<close> is removed, then \<open>items[0]\<close> is the type and \<open>items[1]\<close>, if any, the
  name. \<open>items[0]\<close> on an empty list raises \<open>IndexError\<close>.
\<close>

fun drop_annotations :: "string list \<Rightarrow> error + string list" where
  "drop_annotations [] = Inl IndexError"
| "drop_annotations (i # items) =
     (if startswith i ''@'' then drop_annotations items else Inr (i # items))"

definition parse_param :: "nat \<Rightarrow> string \<Rightarrow> error + Param" where
  "parse_param n p =
     (case drop_annotations (py_split '' '' p) of
        Inl e \<Rightarrow> Inl e
      | Inr items \<Rightarrow>
          (case remove1 ''final'' items of
             [] \<Rightarrow> Inl IndexError
           | [d] \<Rightarrow> Inr \<lparr>p_datatype = d, p_name = ''p'' @ str_nat n\<rparr>
           | d # nm # _ \<Rightarrow> Inr \<lparr>p_datatype = d, p_name = nm\<rparr>))"

fun parse_loop :: "Param list \<Rightarrow> string list \<Rightarrow> error + Param list" where
  "parse_loop ret [] = Inr ret"
| "parse_loop ret (p # ps) =
     (case parse_param (length ret) p of
        Inl e \<Rightarrow> Inl e
      | Inr param \<Rightarrow> parse_loop (ret @ [param]) ps)"

definition Parse :: "string \<Rightarrow> error + Param list" where
  "Parse params =
     (if params = [] then Inr []
      else parse_loop [] (map py_strip (py_split '','' params)))"

text \<open>
  \<open>NativeMethod.__init__\<close> reads \<open>ptr_type\<close> and \<open>native_class_name\<close> with
  \<open>kwargs.get\<close>: \<open>None\<close> stands for an absent key (or, for the class names, for a
  regular-expression group that did not take part in the match). The two type assertions
  of the constructor hold by the typing of \<open>kw_params\<close>.
\<close>

record NativeMethod_kwargs =
  kw_static :: bool
  kw_java_class_name :: "string option"
  kw_return_type :: string
  kw_name :: string
  kw_params :: "Param list"
  kw_ptr_type :: "string option"
  kw_native_class_name :: "string option"

record NativeMethod =
  nm_static :: bool
  nm_java_class_name :: "string option"
  nm_return_type :: string
  nm_name :: string
  nm_params :: "Param list"
  nm_type :: string
  nm_p0_type :: "string option"
  nm_method_id_var_name :: "string option"

definition NativeMethod_init :: "NativeMethod_kwargs \<Rightarrow> NativeMethod" where
  "NativeMethod_init kw =
     (let is_method =
            (case kw_params kw of
               [] \<Rightarrow> False
             | p0 # _ \<Rightarrow>
                 p_datatype p0 = (case kw_ptr_type kw of None \<Rightarrow> ''int'' | Some t \<Rightarrow> t) \<and>
                 startswith (p_name p0) ''native'')
      in \<lparr>nm_static = kw_static kw,
          nm_java_class_name = kw_java_class_name kw,
          nm_return_type = kw_return_type kw,
          nm_name = kw_name kw,
          nm_params = kw_params kw,
          nm_type = (if is_method then ''method'' else ''function''),
          nm_p0_type =
            (if is_method then
               (case kw_native_class_name kw of
                  Some c \<Rightarrow>
                    if c \<noteq> [] then Some c
                    else Some (drop (length ''native'') (p_name (hd (kw_params kw))))
                | None \<Rightarrow> Some (drop (length ''native'') (p_name (hd (kw_params kw)))))
             else None),
          nm_method_id_var_name = None\<rparr>)"

definition GetStaticCastForReturnType :: "string \<Rightarrow> string option" where
  "GetStaticCastForReturnType return_type =
     (case map_of
             [(''String'', ''jstring''), (''java/lang/String'', ''jstring''),
              (''Throwable'', ''jthrowable''), (''java/lang/Throwable'', ''jthrowable''),
              (''boolean[]'', ''jbooleanArray''), (''byte[]'', ''jbyteArray''),
              (''char[]'', ''jcharArray''), (''short[]'', ''jshortArray''),
              (''int[]'', ''jintArray''), (''long[]'', ''jlongArray''),
              (''float[]'', ''jfloatArray''), (''double[]'', ''jdoubleArray'')]
             return_type of
        Some ret \<Rightarrow> Some ret
      | None \<Rightarrow> if endswith return_type ''[]'' then Some ''jobjectArray'' else None)"

definition GetEnvCall :: "bool \<Rightarrow> bool \<Rightarrow> string \<Rightarrow> string" where
  "GetEnvCall is_constructor is_static return_type =
     (if is_constructor then ''NewObject''
      else
        (let call =
               (case map_of
                       [(''boolean'', ''Boolean''), (''byte'', ''Byte''), (''char'', ''Char''),
                        (''short'', ''Short''), (''int'', ''Int''), (''long'', ''Long''),
                        (''float'', ''Float''), (''void'', ''Void''), (''double'', ''Double''),
                        (''Object'', ''Object'')]
                       return_type of
                  Some c \<Rightarrow> c
                | None \<Rightarrow> ''Object'')
         in ''Call'' @ (if is_static then ''Static'' @ call else call) @ ''Method''))"

record CalledByNative =
  cbn_system_class :: bool
  cbn_unchecked :: bool
  cbn_static :: bool
  cbn_java_class_name :: string
  cbn_return_type :: string
  cbn_name :: string
  cbn_params :: "Param list"
  cbn_method_id_var_name :: "string option"
  cbn_signature :: "string option"
  cbn_is_constructor :: bool
  cbn_env_call :: string
  cbn_static_cast :: "string option"

text \<open>
  \<open>CalledByNative(...)\<close> as the two extractors call it: \<open>signature\<close> and
  \<open>is_constructor\<close> are the optional keywords.
\<close>

definition CalledByNative_init ::
  "bool \<Rightarrow> bool \<Rightarrow> bool \<Rightarrow> string \<Rightarrow> string \<Rightarrow> string \<Rightarrow> Param list \<Rightarrow>
   string option \<Rightarrow> bool \<Rightarrow> CalledByNative" where
  "CalledByNative_init system_class unchecked static java_class_name return_type name params
       signature is_constructor =
     \<lparr>cbn_system_class = system_class, cbn_unchecked = unchecked, cbn_static = static,
      cbn_java_class_name = java_class_name, cbn_return_type = return_type,
      cbn_name = name, cbn_params = params, cbn_method_id_var_name = None,
      cbn_signature = signature, cbn_is_constructor = is_constructor,
      cbn_env_call = GetEnvCall is_constructor static return_type,
      cbn_static_cast = GetStaticCastForReturnType return_type\<rparr>"

section \<open>The overload mangler\<close>

text \<open>
  The loop of \<open>GetMangledParam\<close> over \<open>i = 1 .. len - 1\<close>, carrying
  \<open>datatype[i - 1]\<close> as \<open>prev\<close>.
\<close>

fun mangle_chars :: "char \<Rightarrow> string \<Rightarrow> string" where
  "mangle_chars prev [] = []"
| "mangle_chars prev (c # cs) =
     (if c = CHR ''['' then ''A''
      else if isupper c \<or> prev \<in> set [CHR ''/'', CHR ''L''] then [upper c]
      else []) @ mangle_chars c cs"

definition GetMangledParam :: "string \<Rightarrow> string" where
  "GetMangledParam d =
     (if length d \<le> 2 then py_replace ''['' ''A'' d
      else mangle_chars (hd d) (tl d))"

text \<open>A list comprehension whose element expression can raise: the first error wins.\<close>

fun map_raise :: "('a \<Rightarrow> error + 'b) \<Rightarrow> 'a list \<Rightarrow> error + 'b list" where
  "map_raise f [] = Inr []"
| "map_raise f (x # xs) =
     (case f x of
        Inl e \<Rightarrow> Inl e
      | Inr y \<Rightarrow> (case map_raise f xs of Inl e \<Rightarrow> Inl e | Inr ys \<Rightarrow> Inr (y # ys)))"

text \<open>
  \<open>re.match(r'[0-9a-zA-Z_]+', s)\<close> matches at the start of \<open>s\<close> only and does not
  have to reach its end: the match is the longest run of identifier characters that
  \<open>s\<close> begins with, and there is none when that run is empty.
\<close>

definition re_match_identifier :: "string \<Rightarrow> string option" where
  "re_match_identifier s =
     (case takeWhile is_identifier_char s of [] \<Rightarrow> None | m \<Rightarrow> Some m)"

definition GetMangledMethodName ::
  "JniParams \<Rightarrow> string \<Rightarrow> Param list \<Rightarrow> string \<Rightarrow> error + string" where
  "GetMangledMethodName st name params return_type =
     (case map_raise (\<lambda>d. map_sum id GetMangledParam (JavaToJni st d))
             (return_type # map p_datatype params) of
        Inl e \<Rightarrow> Inl e
      | Inr mangled_items \<Rightarrow>
          (let mangled_name = name @ py_join ''_'' mangled_items in
           if re_match_identifier mangled_name = None then Inl AssertionError
           else Inr mangled_name))"

text \<open>
  \<open>method_counts\<close> is a \<open>defaultdict\<close> of \<open>defaultdict\<close>s with default 0:
  a total function from class name and method name to a count.
\<close>

definition method_counts :: "CalledByNative list \<Rightarrow> string \<Rightarrow> string \<Rightarrow> nat" where
  "method_counts called_by_natives =
     fold (\<lambda>c counts.
             counts(cbn_java_class_name c :=
               (counts (cbn_java_class_name c))
                 (cbn_name c := counts (cbn_java_class_name c) (cbn_name c) + 1)))
          called_by_natives (\<lambda>_ _. 0)"

definition mangle_one ::
  "JniParams \<Rightarrow> (string \<Rightarrow> string \<Rightarrow> nat) \<Rightarrow> CalledByNative \<Rightarrow> error + CalledByNative" where
  "mangle_one st counts c =
     (if counts (cbn_java_class_name c) (cbn_name c) > 1 then
        (case GetMangledMethodName st (cbn_name c) (cbn_params c) (cbn_return_type c) of
           Inl e \<Rightarrow> Inl e
         | Inr method_id_var_name \<Rightarrow>
             Inr (c\<lparr>cbn_method_id_var_name := Some method_id_var_name\<rparr>))
      else Inr (c\<lparr>cbn_method_id_var_name := Some (cbn_name c)\<rparr>))"

definition MangleCalledByNatives ::
  "JniParams \<Rightarrow> CalledByNative list \<Rightarrow> error + CalledByNative list" where
  "MangleCalledByNatives st called_by_natives =
     map_raise (mangle_one st (method_counts called_by_natives)) called_by_natives"

section \<open>The regular-expression library\<close>

text \<open>
  The extractors scan the file with Python's \<open>re\<close> module. The module is not part of
  the generator; its results on the generator's patterns are parameters of the model, one
  field per pattern and call, typed by the groups of the pattern: a group that every
  match contains is a \<open>string\<close>, a group inside an optional part is a
  \<open>string option\<close> (\<open>None\<close> as in Python when it took no part in the match).
  Matches are listed in the order \<open>re.finditer\<close> yields them.
\<close>

record native_match =
  g_native_class_name :: "string option"
  g_java_class_name :: "string option"
  g_qualifiers :: string
  g_return_type :: string
  g_name :: string
  g_params :: string

record called_by_native_match =
  c_Unchecked :: string
  c_annotation :: "string option"
  c_prefix :: string
  c_return_type :: string
  c_name :: string
  c_params :: string

record re_module =
  finditer_re_import :: "string \<Rightarrow> string list"
  finditer_re_inner :: "string \<Rightarrow> string list"
  finditer_re_additional_imports :: "string \<Rightarrow> string list"
  finditer_re_native :: "string \<Rightarrow> native_match list"
  finditer_RE_CALLED_BY_NATIVE :: "string \<Rightarrow> called_by_native_match list"
  sub_RE_CALLED_BY_NATIVE :: "string \<Rightarrow> string"
  findall_re_jni_namespace :: "string \<Rightarrow> string list"
  findall_re_package :: "string \<Rightarrow> string list"
  sub_comment_remover_regex :: "(string \<Rightarrow> string) \<Rightarrow> string \<Rightarrow> string"

text \<open>
  \<open>finditer_re_import\<close>, \<open>finditer_re_inner\<close> and
  \<open>finditer_re_additional_imports\<close> give the groups \<open>class\<close>, \<open>name\<close> and
  \<open>class_names\<close> of the matches; \<open>sub_RE_CALLED_BY_NATIVE\<close> is
  \<open>re.sub(RE_CALLED_BY_NATIVE, '', contents)\<close>; the two \<open>findall\<close> fields give
  the single group of their pattern; \<open>sub_comment_remover_regex\<close> takes the
  replacement function applied to each match.
\<close>

section \<open>Import processing\<close>

definition AddAdditionalImport :: "string \<Rightarrow> JniParams \<Rightarrow> error + JniParams" where
  "AddAdditionalImport class_name st =
     (if \<not> endswith class_name ''.class'' then Inl AssertionError
      else
        (let raw_class_name = take (length class_name - length ''.class'') class_name in
         if CHR ''.'' \<in> set raw_class_name then
           Inl (SyntaxError (class_name @ '' cannot be used in @JNIAdditionalImport. ''
                  @ ''Only import unqualified outer classes.''))
         else
           (let new_import = ''L'' @ jp_package st @ ''/'' @ raw_class_name in
            if new_import \<in> set (jp_imports st) then
              Inl (SyntaxError (''Do not use JNIAdditionalImport on an already ''
                     @ ''imported class: '' @ py_replace ''/'' ''.'' new_import))
            else Inr (st\<lparr>jp_imports := jp_imports st @ [new_import]\<rparr>))))"

text \<open>A loop whose body updates the state or raises.\<close>

fun fold_raise :: "('a \<Rightarrow> 's \<Rightarrow> error + 's) \<Rightarrow> 'a list \<Rightarrow> 's \<Rightarrow> error + 's" where
  "fold_raise f [] s = Inr s"
| "fold_raise f (x # xs) s =
     (case f x s of Inl e \<Rightarrow> Inl e | Inr s' \<Rightarrow> fold_raise f xs s')"

definition add_import :: "string \<Rightarrow> JniParams \<Rightarrow> JniParams" where
  "add_import cls st = st\<lparr>jp_imports := jp_imports st @ [''L'' @ py_replace ''.'' ''/'' cls]\<rparr>"

definition add_inner :: "string \<Rightarrow> JniParams \<Rightarrow> JniParams" where
  "add_inner inner st =
     (if \<not> endswith (jp_fully_qualified_class st) inner
        then st\<lparr>jp_inner_classes :=
                 jp_inner_classes st @ [jp_fully_qualified_class st @ ''$'' @ inner]\<rparr>
      else st)"

definition ExtractImportsAndInnerClasses ::
  "re_module \<Rightarrow> string \<Rightarrow> JniParams \<Rightarrow> error + JniParams" where
  "ExtractImportsAndInnerClasses re contents0 st =
     (if jp_package st = [] then
        Inl (RuntimeError (''SetFullyQualifiedClass must be called before ''
               @ ''ExtractImportsAndInnerClasses''))
      else
        (let contents = py_replace [CHR 0x0A] [] contents0;
             st1 = fold add_import (finditer_re_import re contents) st;
             st2 = fold add_inner (finditer_re_inner re contents) st1
         in fold_raise
              (\<lambda>class_names.
                 fold_raise (\<lambda>class_name. AddAdditionalImport (py_strip class_name))
                   (py_split '','' class_names))
              (finditer_re_additional_imports re contents) st2))"

section \<open>Extraction of the declarations\<close>

definition ExtractJNINamespace :: "re_module \<Rightarrow> string \<Rightarrow> string" where
  "ExtractJNINamespace re contents =
     (case findall_re_jni_namespace re contents of [] \<Rightarrow> [] | m # _ \<Rightarrow> m)"

text \<open>\<open>os.path.basename\<close> and \<open>os.path.splitext\<close> (POSIX).\<close>

definition basename :: "string \<Rightarrow> string" where
  "basename p = last (py_split ''/'' p)"

text \<open>
  The extension starts at the last dot of the last path component, unless only dots
  come before that dot in the component.
\<close>

definition splitext :: "string \<Rightarrow> string \<times> string" where
  "splitext p =
     (let dir = take (length p - length (basename p)) p;
          name = basename p;
          ext = rev (takeWhile (\<lambda>c. c \<noteq> CHR ''.'') (rev name));
          stem = take (length name - length ext - 1) name
      in if CHR ''.'' \<in> set name \<and> list_ex (\<lambda>c. c \<noteq> CHR ''.'') stem
           then (dir @ stem, ''.'' @ ext)
         else (p, []))"

definition ExtractFullyQualifiedJavaClassName ::
  "re_module \<Rightarrow> string \<Rightarrow> string \<Rightarrow> error + string" where
  "ExtractFullyQualifiedJavaClassName re java_file_name contents =
     (case findall_re_package re contents of
        [] \<Rightarrow> Inl (SyntaxError (''Unable to find '' @ [CHR 0x22] @ ''package'' @ [CHR 0x22]
                      @ '' line in '' @ java_file_name))
      | m # _ \<Rightarrow>
          Inr (py_replace ''.'' ''/'' m @ ''/'' @ fst (splitext (basename java_file_name))))"

definition native_of_match :: "string \<Rightarrow> native_match \<Rightarrow> error + NativeMethod" where
  "native_of_match ptr_type m =
     (case Parse (g_params m) of
        Inl e \<Rightarrow> Inl e
      | Inr params \<Rightarrow>
          Inr (NativeMethod_init
                 \<lparr>kw_static = py_in ''static'' (g_qualifiers m),
                  kw_java_class_name = g_java_class_name m,
                  kw_return_type = g_return_type m,
                  kw_name = py_replace ''native'' [] (g_name m),
                  kw_params = params,
                  kw_ptr_type = Some ptr_type,
                  kw_native_class_name = g_native_class_name m\<rparr>))"

definition ExtractNatives :: "re_module \<Rightarrow> string \<Rightarrow> string \<Rightarrow> error + NativeMethod list" where
  "ExtractNatives re contents ptr_type =
     map_raise (native_of_match ptr_type)
       (finditer_re_native re (py_replace [CHR 0x0A] [] contents))"

definition called_by_native_of_match :: "called_by_native_match \<Rightarrow> error + CalledByNative" where
  "called_by_native_of_match m =
     (case Parse (c_params m) of
        Inl e \<Rightarrow> Inl e
      | Inr params \<Rightarrow>
          Inr (CalledByNative_init False
                 (py_in ''Unchecked'' (c_Unchecked m))
                 (py_in ''static'' (c_prefix m))
                 (case c_annotation m of None \<Rightarrow> [] | Some a \<Rightarrow> a)
                 (c_return_type m) (c_name m) params None False))"

text \<open>
  \<open>zip(unmatched_lines, unmatched_lines[1:])\<close>: every line but the last is looked
  at, together with its successor.
\<close>

fun check_unmatched :: "string list \<Rightarrow> error + unit" where
  "check_unmatched (line1 # line2 # rest) =
     (if py_in ''@CalledByNative'' line1
        then Inl (ParseError ''could not parse @CalledByNative method signature''
                    [line1, line2])
      else check_unmatched (line2 # rest))"
| "check_unmatched _ = Inr ()"

definition ExtractCalledByNatives ::
  "re_module \<Rightarrow> JniParams \<Rightarrow> string \<Rightarrow> error + CalledByNative list" where
  "ExtractCalledByNatives re st contents =
     (case map_raise called_by_native_of_match (finditer_RE_CALLED_BY_NATIVE re contents) of
        Inl e \<Rightarrow> Inl e
      | Inr called_by_natives \<Rightarrow>
          (case check_unmatched (py_split [CHR 0x0A] (sub_RE_CALLED_BY_NATIVE re contents)) of
             Inl e \<Rightarrow> Inl e
           | Inr _ \<Rightarrow> MangleCalledByNatives st called_by_natives))"

section \<open>The header generator\<close>

text \<open>
  The options of the command line that the modelled functions read. An option that was
  not given is \<open>None\<close>; \<open>optimize_generation\<close> is an integer read for its truth
  value.
\<close>

record Options =
  opt_namespace :: "string option"
  opt_ptr_type :: string
  opt_native_exports_optional :: bool
  opt_optimize_generation :: int
  opt_includes :: "string option"
  opt_script_name :: string

record ConstantField =
  cf_name :: string
  cf_value :: string

record InlHeaderFileGenerator =
  gen_namespace :: "string option"
  gen_fully_qualified_class :: string
  gen_class_name :: string
  gen_natives :: "NativeMethod list"
  gen_called_by_natives :: "CalledByNative list"
  gen_header_guard :: string
  gen_constant_fields :: "ConstantField list"
  gen_options :: Options

definition InlHeaderFileGenerator_init ::
  "string option \<Rightarrow> string \<Rightarrow> NativeMethod list \<Rightarrow> CalledByNative list \<Rightarrow>
   ConstantField list \<Rightarrow> Options \<Rightarrow> InlHeaderFileGenerator" where
  "InlHeaderFileGenerator_init namespace fqc natives called_by_natives constant_fields options =
     \<lparr>gen_namespace = namespace,
      gen_fully_qualified_class = fqc,
      gen_class_name = last (py_split ''/'' fqc),
      gen_natives = natives,
      gen_called_by_natives = called_by_natives,
      gen_header_guard = py_replace ''/'' ''_'' fqc @ ''_JNI'',
      gen_constant_fields = constant_fields,
      gen_options = options\<rparr>"

text \<open>
  \<open>GetStubName\<close>: the template \<open>Java_${JAVA_NAME}_native${NAME}\<close>. A class name
  that is \<open>None\<close> or empty is false in the test \<open>if native.java_class_name\<close>.
\<close>

definition GetStubName :: "InlHeaderFileGenerator \<Rightarrow> NativeMethod \<Rightarrow> string" where
  "GetStubName gen native =
     (let java_name0 =
            py_replace ''/'' ''_'' (py_replace ''_'' ''_1'' (gen_fully_qualified_class gen));
          java_name =
            (case nm_java_class_name native of
               None \<Rightarrow> java_name0
             | Some c \<Rightarrow> if c \<noteq> [] then java_name0 @ ''_00024'' @ c else java_name0)
      in ''Java_'' @ java_name @ ''_native'' @ nm_name native)"

text \<open>
  A Python dictionary is an association list with distinct keys: \<open>d[k] = v\<close> is
  \<open>AList.update k v d\<close>, which replaces the value of a key that is present and adds
  a new key at the end. The loops over a dictionary visit every key once; the order in
  which Python 2 visits them is not fixed by the language, the model visits them in the
  order of insertion.

  \<open>GetUniqueClasses\<close> is called with the native methods and with the called-by-native
  methods; it reads only \<open>java_class_name\<close> of each entry, so the model takes the
  list of these names, the empty string for \<open>None\<close>.
\<close>

definition GetUniqueClasses ::
  "InlHeaderFileGenerator \<Rightarrow> string list \<Rightarrow> (string \<times> string) list" where
  "GetUniqueClasses gen origin =
     fold (\<lambda>java_class_name ret.
             if java_class_name \<noteq> []
               then AList.update java_class_name
                      (gen_fully_qualified_class gen @ ''$'' @ java_class_name) ret
             else AList.update (gen_class_name gen) (gen_fully_qualified_class gen) ret)
          origin [(gen_class_name gen, gen_fully_qualified_class gen)]"

definition native_class_names :: "InlHeaderFileGenerator \<Rightarrow> string list" where
  "native_class_names gen =
     map (\<lambda>n. case nm_java_class_name n of None \<Rightarrow> [] | Some c \<Rightarrow> c) (gen_natives gen)"

definition called_by_native_class_names :: "InlHeaderFileGenerator \<Rightarrow> string list" where
  "called_by_native_class_names gen = map cbn_java_class_name (gen_called_by_natives gen)"

text \<open>\<open>d.update(other)\<close>\<close>

definition dict_update :: "('k \<times> 'v) list \<Rightarrow> ('k \<times> 'v) list \<Rightarrow> ('k \<times> 'v) list" where
  "dict_update other d = fold (\<lambda>(k, v) acc. AList.update k v acc) other d"

text \<open>The dictionary \<open>all_classes\<close> of \<open>GetClassPathDefinitions\<close>.\<close>

definition all_classes :: "InlHeaderFileGenerator \<Rightarrow> (string \<times> string) list" where
  "all_classes gen =
     (let classes = GetUniqueClasses gen (called_by_native_class_names gen) in
      if opt_native_exports_optional (gen_options gen)
        then dict_update (GetUniqueClasses gen (native_class_names gen)) classes
      else classes)"

definition class_path_constant :: "string \<Rightarrow> string \<Rightarrow> string" where
  "class_path_constant clazz jni_class_path =
     ''const char k'' @ clazz @ ''ClassPath[] = '' @ [CHR 0x22] @ jni_class_path
       @ [CHR 0x22] @ '';''"

text \<open>
  The second template; in the Python literal each backslash at the end of a line joins
  the line with the next one.
\<close>

definition class_handle :: "string \<Rightarrow> string" where
  "class_handle clazz =
     ''// Leaking this jclass as we cannot use LazyInstance from some threads.''
       @ [CHR 0x0A]
       @ ''base::subtle::AtomicWord g_'' @ clazz @ ''_clazz __attribute__((unused)) = 0;''
       @ [CHR 0x0A]
       @ ''#define '' @ clazz @ ''_clazz(env) ''
       @ ''base::android::LazyGetClass(env, k'' @ clazz @ ''ClassPath, ''
       @ ''&g_'' @ clazz @ ''_clazz)''"

text \<open>The list \<open>ret\<close> of \<open>GetClassPathDefinitions\<close> before it is joined.\<close>

definition class_path_definition_items :: "InlHeaderFileGenerator \<Rightarrow> string list" where
  "class_path_definition_items gen =
     map (\<lambda>(clazz, jni_class_path). class_path_constant clazz jni_class_path) (all_classes gen)
       @ map (\<lambda>(clazz, jni_class_path). class_handle clazz) (all_classes gen)"

definition GetClassPathDefinitions :: "InlHeaderFileGenerator \<Rightarrow> string" where
  "GetClassPathDefinitions gen = py_join [CHR 0x0A] (class_path_definition_items gen)"

section \<open>Generation from a Java source file\<close>

text \<open>
  \<open>InlHeaderFileGenerator.GetContent\<close> fills the header template from the generator
  object and, through \<open>JniParams.Signature\<close>, from the resolution state; it can raise
  where a type is resolved. Of its parts only the class-path definitions and the stub
  names are modelled above; the function as a whole is a parameter \<open>get_content\<close> of
  the functions that call it.
\<close>

type_synonym get_content = "JniParams \<Rightarrow> InlHeaderFileGenerator \<Rightarrow> error + string"

definition replacer :: "string \<Rightarrow> string" where
  "replacer s = (if startswith s ''/'' then [] else s)"

definition RemoveComments :: "re_module \<Rightarrow> string \<Rightarrow> string" where
  "RemoveComments re contents = sub_comment_remover_regex re replacer contents"

definition JNIFromJavaSource_init ::
  "re_module \<Rightarrow> get_content \<Rightarrow> string list \<Rightarrow> string \<Rightarrow> string \<Rightarrow> Options \<Rightarrow>
   error + string" where
  "JNIFromJavaSource_init re get_content android_jar_classes contents0 fqc options =
     (let contents = RemoveComments re contents0;
          st0 = SetFullyQualifiedClass fqc (JniParams_initial android_jar_classes)
      in case ExtractImportsAndInnerClasses re contents st0 of
           Inl e \<Rightarrow> Inl e
         | Inr st \<Rightarrow>
        (let jni_namespace =
               (if ExtractJNINamespace re contents \<noteq> []
                  then Some (ExtractJNINamespace re contents)
                else opt_namespace options)
         in case ExtractNatives re contents (opt_ptr_type options) of
              Inl e \<Rightarrow> Inl e
            | Inr natives \<Rightarrow>
           (case ExtractCalledByNatives re st contents of
              Inl e \<Rightarrow> Inl e
            | Inr called_by_natives \<Rightarrow>
                if length natives = 0 \<and> length called_by_natives = 0 then
                  Inl (SyntaxError (''Unable to find any JNI methods for '' @ fqc @ ''.''))
                else
                  get_content st
                    (InlHeaderFileGenerator_init jni_namespace fqc natives
                       called_by_natives [] options))))"

section \<open>Files, standard output and the exit status\<close>

text \<open>
  What \<open>GenerateJNIHeader\<close> reads and changes outside the process: the regular files
  with their contents, the directories, and the lines printed so far.
\<close>

record world =
  w_files :: "string \<rightharpoonup> string"
  w_dirs :: "string set"
  w_stdout :: "string list"

text \<open>
  How a call ends: it returns, it calls \<open>sys.exit\<close>, or an exception leaves it. The
  script ends with \<open>sys.exit(main(sys.argv))\<close>, where \<open>main\<close> returns \<open>None\<close> after
  \<open>GenerateJNIHeader\<close>: the status is 0 after a return, the argument of
  \<open>sys.exit\<close>, and 1 when the interpreter ends on an exception nobody caught.
\<close>

datatype outcome = Returned | SysExit nat | Raised error

fun exit_status :: "outcome \<Rightarrow> nat" where
  "exit_status Returned = 0"
| "exit_status (SysExit n) = n"
| "exit_status (Raised e) = 1"

text \<open>\<open>ParseError.__str__\<close>; the other exception classes are never printed by the script.\<close>

fun str_error :: "error \<Rightarrow> string" where
  "str_error (ParseError description context_lines) =
     ''***'' @ [CHR 0x0A] @ ''ERROR: '' @ description @ [CHR 0x0A, CHR 0x0A]
       @ py_join [CHR 0x0A] context_lines @ [CHR 0x0A] @ ''***''"
| "str_error _ = []"

fun is_ParseError :: "error \<Rightarrow> bool" where
  "is_ParseError (ParseError description context_lines) = True"
| "is_ParseError _ = False"

definition CreateFromFile ::
  "re_module \<Rightarrow> get_content \<Rightarrow> string list \<Rightarrow> string \<Rightarrow> Options \<Rightarrow> world \<Rightarrow>
   error + string" where
  "CreateFromFile re get_content android_jar_classes java_file_name options w =
     (case w_files w java_file_name of
        None \<Rightarrow> Inl (IOError java_file_name)
      | Some contents \<Rightarrow>
          (case ExtractFullyQualifiedJavaClassName re java_file_name contents of
             Inl e \<Rightarrow> Inl e
           | Inr fully_qualified_class \<Rightarrow>
               JNIFromJavaSource_init re get_content android_jar_classes contents
                 fully_qualified_class options))"

text \<open>
  The collaborators of \<open>GenerateJNIHeader\<close> that are taken as parameters:
  \<open>env_javap_content\<close> is \<open>JNIFromJavaP.CreateFromClass(input_file,
  options).GetContent()\<close>, which runs the external decompiler and reads its output;
  \<open>env_abspath\<close> is \<open>os.path.abspath\<close>, which depends on the working directory.
\<close>

record environment =
  env_re :: re_module
  env_get_content :: get_content
  env_android_jar_classes :: "string list"
  env_javap_content :: "string \<Rightarrow> Options \<Rightarrow> world \<Rightarrow> error + string"
  env_abspath :: "string \<Rightarrow> string"

text \<open>The body of the \<open>try\<close> statement: it computes the content and writes nothing.\<close>

definition compute_content ::
  "environment \<Rightarrow> string \<Rightarrow> Options \<Rightarrow> world \<Rightarrow> error + string" where
  "compute_content env input_file options w =
     (if snd (splitext input_file) = ''.class''
        then env_javap_content env input_file options w
      else CreateFromFile (env_re env) (env_get_content env) (env_android_jar_classes env)
             input_file options w)"

definition dirname :: "string \<Rightarrow> string" where
  "dirname p =
     (let head = take (length p - length (basename p)) p in
      if head \<noteq> [] \<and> list_ex (\<lambda>c. c \<noteq> CHR ''/'') head
        then rev (dropWhile (\<lambda>c. c = CHR ''/'') (rev head))
      else head)"

text \<open>\<open>os.makedirs\<close> creates the directory and every missing directory above it.\<close>

definition makedirs :: "string \<Rightarrow> world \<Rightarrow> world" where
  "makedirs d w =
     (let parts = py_split ''/'' d in
      w\<lparr>w_dirs := w_dirs w \<union>
          set (filter (\<lambda>p. p \<noteq> [])
                 (map (\<lambda>n. py_join ''/'' (take n parts)) [0..<Suc (length parts)]))\<rparr>)"

definition path_exists :: "world \<Rightarrow> string \<Rightarrow> bool" where
  "path_exists w p = (p \<in> dom (w_files w) \<or> p \<in> w_dirs w)"

text \<open>Opening a directory for reading or writing raises \<open>IOError\<close>.\<close>

definition write_file :: "string \<Rightarrow> string \<Rightarrow> world \<Rightarrow> outcome \<times> world" where
  "write_file out content w =
     (if out \<in> w_dirs w then (Raised (IOError out), w)
      else (Returned, w\<lparr>w_files := (w_files w)(out \<mapsto> content)\<rparr>))"

definition write_output ::
  "environment \<Rightarrow> string \<Rightarrow> string option \<Rightarrow> Options \<Rightarrow> world \<Rightarrow> outcome \<times> world" where
  "write_output env content output_file options w =
     (case output_file of
        None \<Rightarrow> (Returned, w\<lparr>w_stdout := w_stdout w @ [content]\<rparr>)
      | Some out \<Rightarrow>
          if out = [] then (Returned, w\<lparr>w_stdout := w_stdout w @ [content]\<rparr>)
          else
            (let w1 = (if \<not> path_exists w (dirname (env_abspath env out))
                         then makedirs (dirname (env_abspath env out)) w
                       else w)
             in if opt_optimize_generation options \<noteq> 0 \<and> path_exists w1 out then
                  (case w_files w1 out of
                     None \<Rightarrow> (Raised (IOError out), w1)
                   | Some existing_content \<Rightarrow>
                       if existing_content = content then (Returned, w1)
                       else write_file out content w1)
                else write_file out content w1))"

definition GenerateJNIHeader ::
  "environment \<Rightarrow> string \<Rightarrow> string option \<Rightarrow> Options \<Rightarrow> world \<Rightarrow> outcome \<times> world" where
  "GenerateJNIHeader env input_file output_file options w =
     (case compute_content env input_file options w of
        Inl e \<Rightarrow>
          if is_ParseError e
            then (SysExit 1, w\<lparr>w_stdout := w_stdout w @ [str_error e]\<rparr>)
          else (Raised e, w)
      | Inr content \<Rightarrow> write_output env content output_file options w)"

section \<open>Example inputs\<close>

text \<open>
  The resolution state of a file \<open>org/example/Foo.java\<close> without imports, with a
  two-line table of implicitly imported classes.
\<close>

definition example_android_jar_classes :: "string list" where
  "example_android_jar_classes =
     [''java/lang/Thread.class'' @ [CHR 0x0A], ''java/net/URL.class'' @ [CHR 0x0A]]"

definition example_params :: JniParams where
  "example_params =
     SetFullyQualifiedClass ''org/example/Foo'' (JniParams_initial example_android_jar_classes)"

text \<open>
  The keywords \<open>ExtractNatives\<close> passes for \<open>native void nativeDestroy(T nativeFoo)\<close>
  when the pointer type is \<open>ptr_type\<close>.
\<close>

definition example_destroy :: "string \<Rightarrow> string \<Rightarrow> NativeMethod_kwargs" where
  "example_destroy ptr_type T =
     \<lparr>kw_static = False, kw_java_class_name = None, kw_return_type = ''void'',
      kw_name = ''Destroy'',
      kw_params = [\<lparr>p_datatype = T, p_name = ''nativeFoo''\<rparr>],
      kw_ptr_type = Some ptr_type, kw_native_class_name = None\<rparr>"

text \<open>A text as the list of its lines, each ended by a newline.\<close>

definition unlines :: "string list \<Rightarrow> string" where
  "unlines ls = concat (map (\<lambda>l. l @ [CHR 0x0A]) ls)"

text \<open>
  What the \<open>re\<close> module returns is tabulated for the example files below: a table
  maps the string that is searched to the result, and a string that is not in the table
  has no match.
\<close>

definition re_table :: "(string \<times> 'a list) list \<Rightarrow> string \<Rightarrow> 'a list" where
  "re_table t s = (case map_of t s of None \<Rightarrow> [] | Some r \<Rightarrow> r)"

definition re_sub_table :: "(string \<times> string) list \<Rightarrow> string \<Rightarrow> string" where
  "re_sub_table t s = (case map_of t s of None \<Rightarrow> s | Some r \<Rightarrow> r)"

text \<open>A file with one native method whose name contains \<open>native\<close> twice.\<close>

definition example_source_alternative :: string where
  "example_source_alternative =
     unlines
       [''package org.example;'',
        ''class Foo {'',
        ''  private native void nativeUpdateAlternative(long nativeFoo, int count);'',
        ''}'']"

definition example_match_alternative :: native_match where
  "example_match_alternative =
     \<lparr>g_native_class_name = None, g_java_class_name = None, g_qualifiers = ''private'',
      g_return_type = ''void'', g_name = ''nativeUpdateAlternative'',
      g_params = ''long nativeFoo, int count''\<rparr>"

definition example_update_alter :: NativeMethod where
  "example_update_alter =
     \<lparr>nm_static = False, nm_java_class_name = None, nm_return_type = ''void'',
      nm_name = ''UpdateAlter'',
      nm_params = [\<lparr>p_datatype = ''long'', p_name = ''nativeFoo''\<rparr>,
                   \<lparr>p_datatype = ''int'', p_name = ''count''\<rparr>],
      nm_type = ''method'', nm_p0_type = Some ''Foo'', nm_method_id_var_name = None\<rparr>"

definition example_options :: "bool \<Rightarrow> Options" where
  "example_options native_exports_optional =
     \<lparr>opt_namespace = None, opt_ptr_type = ''long'',
      opt_native_exports_optional = native_exports_optional,
      opt_optimize_generation = 0, opt_includes = None,
      opt_script_name = ''base/android/jni_generator/jni_generator.py''\<rparr>"

definition example_generator ::
  "NativeMethod list \<Rightarrow> CalledByNative list \<Rightarrow> bool \<Rightarrow> InlHeaderFileGenerator" where
  "example_generator natives called_by_natives native_exports_optional =
     InlHeaderFileGenerator_init None ''org/example/Foo'' natives called_by_natives []
       (example_options native_exports_optional)"

text \<open>
  A file that imports the nested class \<open>java.util.Map.Entry\<close> directly and has one
  called-by-native method.
\<close>

definition example_source_inner_import :: string where
  "example_source_inner_import =
     unlines
       [''package org.example;'',
        ''import java.util.Map.Entry;'',
        ''class Foo {'',
        ''  @CalledByNative'',
        ''  int size(int n) { return n; }'',
        ''}'']"

definition example_match_size :: called_by_native_match where
  "example_match_size =
     \<lparr>c_Unchecked = [], c_annotation = None, c_prefix = [], c_return_type = ''int'',
      c_name = ''size'', c_params = ''int n''\<rparr>"

text \<open>A file without any JNI method.\<close>

definition example_source_empty :: string where
  "example_source_empty =
     unlines
       [''package org.example;'',
        ''class Foo {'',
        ''}'']"

text \<open>A file whose \<open>@CalledByNative\<close> annotation is not followed by a method.\<close>

definition example_source_bad :: string where
  "example_source_bad =
     unlines
       [''package org.example;'',
        ''class Foo {'',
        ''  @CalledByNative'',
        ''  int;'',
        ''}'']"

text \<open>
  A file that uses \<open>URL\<close> without importing it, and the same file with the import
  added.
\<close>

definition example_source_url :: string where
  "example_source_url =
     unlines
       [''package org.example;'',
        ''class Foo {'',
        ''  @CalledByNative'',
        ''  void load(URL url) { }'',
        ''}'']"

definition example_source_url_imported :: string where
  "example_source_url_imported =
     unlines
       [''package org.example;'',
        ''import java.net.URL;'',
        ''class Foo {'',
        ''  @CalledByNative'',
        ''  void load(URL url) { }'',
        ''}'']"

definition example_match_load :: called_by_native_match where
  "example_match_load =
     \<lparr>c_Unchecked = [], c_annotation = None, c_prefix = [], c_return_type = ''void'',
      c_name = ''load'', c_params = ''URL url''\<rparr>"


definition flat :: "string \<Rightarrow> string" where
  "flat contents = py_replace [CHR 0x0A] [] contents"

text \<open>
  The results of the \<open>re\<close> module on the example files. None of them has a
  comment, a string or a character literal, so the comment remover finds no match.
\<close>

definition example_re :: re_module where
  "example_re =
     \<lparr>finditer_re_import =
        re_table [(flat example_source_inner_import, [''java.util.Map.Entry'']),
                  (flat example_source_url_imported, [''java.net.URL''])],
      finditer_re_inner =
        re_table [(flat example_source_alternative, [''Foo'']),
                  (flat example_source_inner_import, [''Foo'']),
                  (flat example_source_empty, [''Foo'']),
                  (flat example_source_bad, [''Foo'']),
                  (flat example_source_url, [''Foo'']),
                  (flat example_source_url_imported, [''Foo''])],
      finditer_re_additional_imports = (\<lambda>contents. []),
      finditer_re_native =
        re_table [(flat example_source_alternative, [example_match_alternative])],
      finditer_RE_CALLED_BY_NATIVE =
        re_table [(example_source_inner_import, [example_match_size]),
                  (example_source_url, [example_match_load]),
                  (example_source_url_imported, [example_match_load])],
      sub_RE_CALLED_BY_NATIVE =
        re_sub_table
          [(example_source_inner_import,
            unlines
              [''package org.example;'',
               ''import java.util.Map.Entry;'',
               ''class Foo {'',
               ''   { return n; }'',
               ''}'']),
           (example_source_url,
            unlines
              [''package org.example;'',
               ''class Foo {'',
               ''   { }'',
               ''}'']),
           (example_source_url_imported,
            unlines
              [''package org.example;'',
               ''import java.net.URL;'',
               ''class Foo {'',
               ''   { }'',
               ''}''])],
      findall_re_jni_namespace = (\<lambda>contents. []),
      findall_re_package =
        re_table [(example_source_alternative, [''org.example'']),
                  (example_source_inner_import, [''org.example'']),
                  (example_source_empty, [''org.example'']),
                  (example_source_bad, [''org.example'']),
                  (example_source_url, [''org.example'']),
                  (example_source_url_imported, [''org.example''])],
      sub_comment_remover_regex = (\<lambda>repl contents. contents)\<rparr>"

text \<open>
  A called-by-native instance method with one parameter \<open>x\<close>, declared in the class
  of the file or, with a class name, in an inner class.
\<close>

definition example_called_by_native ::
  "string \<Rightarrow> string \<Rightarrow> string \<Rightarrow> string \<Rightarrow> CalledByNative" where
  "example_called_by_native java_class_name return_type name datatype =
     CalledByNative_init False False False java_class_name return_type name
       [\<lparr>p_datatype = datatype, p_name = ''x''\<rparr>] None False"

text \<open>The overloads \<open>void foo(Bar x)\<close> and \<open>void foo(Baz x)\<close> of the class \<open>Foo\<close>.\<close>

definition example_overloads_foo :: "CalledByNative list" where
  "example_overloads_foo =
     [example_called_by_native [] ''void'' ''foo'' ''Bar'',
      example_called_by_native [] ''void'' ''foo'' ''Baz'']"

text \<open>
  The overloads \<open>void load(URL x)\<close> and \<open>void load(String x)\<close> in a file that
  imports \<open>java.net.URL\<close>.
\<close>

definition example_params_url :: JniParams where
  "example_params_url = add_import ''java.net.URL'' example_params"

definition example_overloads_load :: "CalledByNative list" where
  "example_overloads_load =
     [example_called_by_native [] ''void'' ''load'' ''URL'',
      example_called_by_native [] ''void'' ''load'' ''String'']"

text \<open>
  A native method \<open>void nativeInit()\<close> declared with \<open>@NativeCall("Inner")\<close>, and a
  generator for it alone, with and without the option \<open>native_exports_optional\<close>.
\<close>

definition example_native_inner :: NativeMethod where
  "example_native_inner =
     NativeMethod_init
       \<lparr>kw_static = False, kw_java_class_name = Some ''Inner'', kw_return_type = ''void'',
        kw_name = ''Init'', kw_params = [], kw_ptr_type = Some ''long'',
        kw_native_class_name = None\<rparr>"

text \<open>Two methods of the inner class \<open>Inner\<close> and one of the class of the file.\<close>

definition example_called_by_natives_inner :: "CalledByNative list" where
  "example_called_by_natives_inner =
     [example_called_by_native ''Inner'' ''void'' ''first'' ''int'',
      example_called_by_native ''Inner'' ''void'' ''second'' ''int'',
      example_called_by_native [] ''void'' ''third'' ''int'']"

text \<open>
  The resolution state after the imports of \<open>example_source_inner_import\<close> have
  been processed.
\<close>

definition example_params_inner_import :: JniParams where
  "example_params_inner_import = add_import ''java.util.Map.Entry'' example_params"

text \<open>
  A stand-in for \<open>GetContent\<close> in the examples: it renders the class-path definitions
  only.
\<close>

definition example_get_content :: get_content where
  "example_get_content st gen = Inr (GetClassPathDefinitions gen)"

text \<open>
  An environment and a world for \<open>GenerateJNIHeader\<close>: the source file
  \<open>example_source_bad\<close> and a header left by an earlier run.
\<close>

definition example_environment :: environment where
  "example_environment =
     \<lparr>env_re = example_re,
      env_get_content = example_get_content,
      env_android_jar_classes = example_android_jar_classes,
      env_javap_content = (\<lambda>input_file options w. Inl (IOError input_file)),
      env_abspath = (\<lambda>p. ''/work/'' @ p)\<rparr>"

definition example_world :: world where
  "example_world =
     \<lparr>w_files = map_of [(''java/org/example/Foo.java'', example_source_bad),
                         (''gen/Foo_jni.h'', ''// stale header'')],
      w_dirs = set [''java'', ''java/org'', ''java/org/example'', ''gen''],
      w_stdout = []\<rparr>"

section \<open>Facts about the string primitives\<close>

lemma endswith_iff: "endswith s p \<longleftrightarrow> (\<exists>r. s = r @ p)"
proof
  assume "endswith s p"
  then have "s = take (length s - length p) s @ p"
    by (metis append_take_drop_id endswith_def)
  then show "\<exists>r. s = r @ p" ..
next
  assume "\<exists>r. s = r @ p"
  then show "endswith s p"
    by (auto simp: endswith_def)
qed

lemma endswith_last: "endswith s p \<Longrightarrow> p \<noteq> [] \<Longrightarrow> last s = last p"
  by (auto simp: endswith_iff)

lemma strip_arrays_no_marker:
  "\<not> endswith param ''[]'' \<Longrightarrow> strip_arrays prefix param = (prefix, param)"
  by (subst strip_arrays.simps) simp

lemma not_endswith_generic: "\<not> endswith (T @ ''<'' @ args @ ''>'') ''[]''"
  using endswith_last [of "T @ ''<'' @ args @ ''>''" "''[]''"] by auto

lemma strip_generic_suffix: "strip_generic (T @ ''<'' @ rest) = strip_generic T"
  by (induction T) (simp_all add: strip_generic_def)

lemmas example_params_defs =
  example_params_def example_android_jar_classes_def SetFullyQualifiedClass_def
  JniParams_initial_def

lemmas JavaToJni_defs =
  JavaToJni_def resolve_def pod_param_map_def strip_generic_def endswith_def
  object_param_list_def CheckImplicitImports_def implicit_import_name_def py_strip_def
  isspace_def startswith_def inner_class_import_def isupper_def
  py_in.simps py_replace.simps py_split.simps strip_arrays.simps known_class_match_def
  import_match_def
  ambiguous_class_message_def inner_import_message_def

lemma map_raise_Inr:
  "map_raise f xs = Inr ys \<Longrightarrow> list_all2 (\<lambda>x y. f x = Inr y) xs ys"
proof (induction xs arbitrary: ys)
  case Nil
  then show ?case by simp
next
  case (Cons x xs)
  then show ?case
    by (auto split: sum.splits)
qed

lemma map_raise_length: "map_raise f xs = Inr ys \<Longrightarrow> length ys = length xs"
  by (drule map_raise_Inr) (simp add: list_all2_lengthD)




section \<open>Facts about the resolver\<close>


lemma resolve_reaches_import:
  assumes "map_of pod_param_map name = None"
    and "CHR ''/'' \<notin> set name"
    and "find (known_class_match name)
           (object_param_list @ [jp_fully_qualified_class st] @ jp_inner_classes st) = None"
    and "find (import_match name) (jp_imports st) = Some q"
  shows "resolve st prefix name =
           (case inner_class_import q of
             Inl e \<Rightarrow> Inl e
           | Inr True \<Rightarrow> Inl (SyntaxError (inner_import_message q name))
           | Inr False \<Rightarrow> Inr (prefix @ q @ '';''))"
  using assms by (simp add: resolve_def)

lemma concat_replicate_Suc_end: "concat (replicate (Suc k) x) = concat (replicate k x) @ x"
  by (induction k) simp_all

lemma strip_arrays_markers:
  "\<not> endswith base ''[]'' \<Longrightarrow>
   strip_arrays prefix (base @ concat (replicate k ''[]''))
     = (prefix @ replicate k CHR ''['', base)"
proof (induction k arbitrary: prefix)
  case 0
  then show ?case
    by (simp add: strip_arrays_no_marker)
next
  case (Suc k)
  let ?s = "base @ concat (replicate k ''[]'')"
  have s: "base @ concat (replicate (Suc k) ''[]'') = ?s @ ''[]''"
    by (simp only: concat_replicate_Suc_end append_assoc)
  have e: "endswith (?s @ ''[]'') ''[]''"
    by (simp add: endswith_def)
  have t: "take (length (?s @ ''[]'') - 2) (?s @ ''[]'') = ?s"
    by simp
  have "strip_arrays prefix (?s @ ''[]'') = strip_arrays (prefix @ ''['') ?s"
    by (subst strip_arrays.simps) (simp only: e t if_True)
  also have "\<dots> = ((prefix @ ''['') @ replicate k CHR ''['', base)"
    using Suc.prems by (rule Suc.IH)
  also have "(prefix @ ''['') @ replicate k CHR ''['' = prefix @ replicate (Suc k) CHR ''[''"
    by (simp add: replicate_append_same)
  finally show ?case
    unfolding s .
qed

section \<open>The type resolver on the well-known types and on generic names\<close>

text \<open>
  Claim C1, as amended. In every resolution state \<open>JavaToJni\<close> maps \<open>int\<close> to
  \<open>I\<close>, \<open>int[]\<close> to \<open>[I\<close>, \<open>boolean\<close> to \<open>Z\<close>, \<open>void\<close> to \<open>V\<close>,
  \<open>String\<close> to \<open>Ljava/lang/String;\<close> and \<open>String[]\<close> to
  \<open>[Ljava/lang/String;\<close>. For every type name \<open>T\<close> that does not end in the array
  marker \<open>[]\<close> and every generic suffix \<open><args>\<close>, resolving \<open>T<args>\<close> gives
  the result of resolving \<open>T\<close>, the same descriptor or the same error.
\<close>

theorem JavaToJni_known_types_and_generics:
  "JavaToJni st ''int'' = Inr ''I'' \<and>
   JavaToJni st ''int[]'' = Inr ''[I'' \<and>
   JavaToJni st ''boolean'' = Inr ''Z'' \<and>
   JavaToJni st ''void'' = Inr ''V'' \<and>
   JavaToJni st ''String'' = Inr ''Ljava/lang/String;'' \<and>
   JavaToJni st ''String[]'' = Inr ''[Ljava/lang/String;'' \<and>
   (\<not> endswith T ''[]'' \<longrightarrow>
      JavaToJni st (T @ ''<'' @ args @ ''>'') = JavaToJni st T)"
proof -
  have fixed:
    "JavaToJni st ''int'' = Inr ''I''"
    "JavaToJni st ''int[]'' = Inr ''[I''"
    "JavaToJni st ''boolean'' = Inr ''Z''"
    "JavaToJni st ''void'' = Inr ''V''"
    "JavaToJni st ''String'' = Inr ''Ljava/lang/String;''"
    "JavaToJni st ''String[]'' = Inr ''[Ljava/lang/String;''"
    by (simp_all add: JavaToJni_def resolve_def pod_param_map_def strip_generic_def
          endswith_def startswith_def object_param_list_def py_replace.simps
          strip_arrays.simps known_class_match_def)
  have generic: "JavaToJni st (T @ ''<'' @ args @ ''>'') = JavaToJni st T"
    if "\<not> endswith T ''[]''"
  proof -
    have "strip_arrays [] (T @ ''<'' @ args @ ''>'') = ([], T @ ''<'' @ args @ ''>'')"
      by (rule strip_arrays_no_marker) (rule not_endswith_generic)
    moreover have "strip_arrays [] T = ([], T)"
      using that by (rule strip_arrays_no_marker)
    moreover have "strip_generic (T @ ''<'' @ args @ ''>'') = strip_generic T"
      by (rule strip_generic_suffix)
    ultimately show ?thesis
      by (simp add: JavaToJni_def)
  qed
  from fixed generic show ?thesis by blast
qed

text \<open>
  The generic clause at \<open>Foo<Bar>\<close> in the example file: both names resolve to the
  class \<open>Foo\<close> of the file.
\<close>

theorem JavaToJni_known_types_and_generics_witness:
  "\<not> endswith ''Foo'' ''[]'' \<and>
   JavaToJni example_params (''Foo'' @ ''<'' @ ''Bar'' @ ''>'') = Inr ''Lorg/example/Foo;'' \<and>
   JavaToJni example_params ''Foo'' = Inr ''Lorg/example/Foo;''"
proof -
  have h: "\<not> endswith ''Foo'' ''[]''"
    by (simp add: endswith_def)
  have v: "JavaToJni example_params ''Foo'' = Inr ''Lorg/example/Foo;''"
    by (simp add: example_params_defs JavaToJni_defs)
  from JavaToJni_known_types_and_generics [of example_params "''Foo''" "''Bar''"] h v
  show ?thesis by simp
qed

text \<open>
  Without the restriction on \<open>T\<close> the generic clause fails: the array markers are
  stripped before the generic suffix, so in \<open>int[]<X>\<close> the marker is not at the end
  and stays in the name, which then falls through to the package of the file.
\<close>

theorem JavaToJni_generic_after_array_counterexample:
  "JavaToJni example_params (''int[]'' @ ''<X>'') = Inr ''Lorg/example/int[];'' \<and>
   JavaToJni example_params ''int[]'' = Inr ''[I'' \<and>
   JavaToJni example_params (''int[]'' @ ''<X>'') \<noteq> JavaToJni example_params ''int[]''"
  by (simp add: example_params_defs JavaToJni_defs)

text \<open>
  For an array type the generic suffix stands before the array markers, as Java writes
  it, and is dropped there: \<open>T<args>[]\<close> resolves as \<open>T[]\<close>.
\<close>

lemma JavaToJni_generic_array:
  assumes "\<not> endswith T ''[]''"
  shows "JavaToJni st (T @ ''<'' @ args @ ''>'' @ concat (replicate k ''[]''))
           = JavaToJni st (T @ concat (replicate k ''[]''))"
proof -
  have "strip_arrays [] ((T @ ''<'' @ args @ ''>'') @ concat (replicate k ''[]''))
          = ([] @ replicate k CHR ''['', T @ ''<'' @ args @ ''>'')"
    by (rule strip_arrays_markers) (rule not_endswith_generic)
  moreover have "strip_arrays [] (T @ concat (replicate k ''[]''))
          = ([] @ replicate k CHR ''['', T)"
    using assms by (rule strip_arrays_markers)
  moreover have "strip_generic (T @ ''<'' @ args @ ''>'') = strip_generic T"
    by (rule strip_generic_suffix)
  ultimately show ?thesis
    by (simp add: JavaToJni_def)
qed

section \<open>Dispatch classification of native methods\<close>

text \<open>
  Claim C2. The configured pointer type is the value of \<open>ptr_type\<close>, \<open>int\<close>
  when the keyword is absent. A declaration whose first parameter has that type and a
  name \<open>native\<close> followed by \<open>peer\<close> is classified \<open>method\<close> (bound to a native
  peer), and its peer type is \<open>peer\<close>, unless \<open>native_class_name\<close> holds a
  non-empty override, which is then the peer type. Every other declaration (no
  parameter, another first type, or a first name without the prefix) is classified
  \<open>function\<close> and has no peer type.
\<close>

theorem NativeMethod_init_classification:
  "(kw_params kw = p0 # rest \<and>
    p_datatype p0 = (case kw_ptr_type kw of None \<Rightarrow> ''int'' | Some t \<Rightarrow> t) \<and>
    p_name p0 = ''native'' @ peer \<longrightarrow>
      nm_type (NativeMethod_init kw) = ''method'' \<and>
      nm_p0_type (NativeMethod_init kw) =
        Some (case kw_native_class_name kw of
                None \<Rightarrow> peer
              | Some c \<Rightarrow> if c = [] then peer else c)) \<and>
   (kw_params kw = [] \<or>
    p_datatype (hd (kw_params kw)) \<noteq> (case kw_ptr_type kw of None \<Rightarrow> ''int'' | Some t \<Rightarrow> t) \<or>
    \<not> startswith (p_name (hd (kw_params kw))) ''native'' \<longrightarrow>
      nm_type (NativeMethod_init kw) = ''function'' \<and>
      nm_p0_type (NativeMethod_init kw) = None)"
proof (intro conjI impI)
  assume a: "kw_params kw = p0 # rest \<and>
    p_datatype p0 = (case kw_ptr_type kw of None \<Rightarrow> ''int'' | Some t \<Rightarrow> t) \<and>
    p_name p0 = ''native'' @ peer"
  then have m: "startswith (p_name p0) ''native''"
    by (simp add: startswith_def)
  from a m show "nm_type (NativeMethod_init kw) = ''method''"
    by (simp add: NativeMethod_init_def)
  from a m show "nm_p0_type (NativeMethod_init kw) =
      Some (case kw_native_class_name kw of
              None \<Rightarrow> peer
            | Some c \<Rightarrow> if c = [] then peer else c)"
    by (simp add: NativeMethod_init_def split: option.split)
next
  assume b: "kw_params kw = [] \<or>
    p_datatype (hd (kw_params kw)) \<noteq> (case kw_ptr_type kw of None \<Rightarrow> ''int'' | Some t \<Rightarrow> t) \<or>
    \<not> startswith (p_name (hd (kw_params kw))) ''native''"
  then show "nm_type (NativeMethod_init kw) = ''function''"
    by (cases "kw_params kw") (auto simp: NativeMethod_init_def)
  from b show "nm_p0_type (NativeMethod_init kw) = None"
    by (cases "kw_params kw") (auto simp: NativeMethod_init_def)
qed

text \<open>
  The declaration \<open>native void nativeDestroy(long nativeFoo)\<close> with the pointer type
  \<open>long\<close>, and the same declaration with \<open>int\<close> for both, are methods of the peer
  \<open>Foo\<close>; with the pointer type \<open>int\<close> the \<open>long\<close> parameter makes it a
  function.
\<close>

theorem NativeMethod_init_classification_witness:
  "kw_params (example_destroy ''long'' ''long'') = [\<lparr>p_datatype = ''long'', p_name = ''nativeFoo''\<rparr>] \<and>
   nm_type (NativeMethod_init (example_destroy ''long'' ''long'')) = ''method'' \<and>
   nm_p0_type (NativeMethod_init (example_destroy ''long'' ''long'')) = Some ''Foo'' \<and>
   nm_type (NativeMethod_init (example_destroy ''int'' ''int'')) = ''method'' \<and>
   nm_p0_type (NativeMethod_init (example_destroy ''int'' ''int'')) = Some ''Foo'' \<and>
   p_datatype (hd (kw_params (example_destroy ''int'' ''long''))) \<noteq> ''int'' \<and>
   nm_type (NativeMethod_init (example_destroy ''int'' ''long'')) = ''function'' \<and>
   nm_p0_type (NativeMethod_init (example_destroy ''int'' ''long'')) = None"
  using
    NativeMethod_init_classification
      [of "example_destroy ''long'' ''long''" "\<lparr>p_datatype = ''long'', p_name = ''nativeFoo''\<rparr>"
          "[]" "''Foo''"]
    NativeMethod_init_classification
      [of "example_destroy ''int'' ''int''" "\<lparr>p_datatype = ''int'', p_name = ''nativeFoo''\<rparr>"
          "[]" "''Foo''"]
    NativeMethod_init_classification
      [of "example_destroy ''int'' ''long''" "\<lparr>p_datatype = ''long'', p_name = ''nativeFoo''\<rparr>"
          "[]" "''Foo''"]
  by (simp add: example_destroy_def)

section \<open>Identifiers of overloaded methods\<close>

lemma method_counts_fold:
  "fold (\<lambda>c counts.
           counts(cbn_java_class_name c :=
             (counts (cbn_java_class_name c))
               (cbn_name c := counts (cbn_java_class_name c) (cbn_name c) + 1)))
        cs init jc n
   = init jc n + length (filter (\<lambda>c. cbn_java_class_name c = jc \<and> cbn_name c = n) cs)"
  by (induction cs arbitrary: init) auto

lemma method_counts_eq:
  "method_counts cs jc n = length (filter (\<lambda>c. cbn_java_class_name c = jc \<and> cbn_name c = n) cs)"
  using method_counts_fold [of cs "\<lambda>_ _. 0" jc n]
  by (simp add: method_counts_def)

text \<open>
  The part of claim C3 that the code keeps: a method that is the only one of its class
  and name keeps its plain name as identifier, whatever its types are.
\<close>

lemma MangleCalledByNatives_single:
  assumes "MangleCalledByNatives st cs = Inr cs'"
    and "i < length cs"
    and "length (filter (\<lambda>c. cbn_java_class_name c = cbn_java_class_name (cs ! i) \<and>
                              cbn_name c = cbn_name (cs ! i)) cs) = 1"
  shows "cbn_method_id_var_name (cs' ! i) = Some (cbn_name (cs ! i))"
proof -
  from assms(1) have
    "list_all2 (\<lambda>c c'. mangle_one st (method_counts cs) c = Inr c') cs cs'"
    unfolding MangleCalledByNatives_def by (rule map_raise_Inr)
  from this assms(2) have "mangle_one st (method_counts cs) (cs ! i) = Inr (cs' ! i)"
    by (rule list_all2_nthD)
  with assms(3) have
    "cs' ! i = (cs ! i)\<lparr>cbn_method_id_var_name := Some (cbn_name (cs ! i))\<rparr>"
    by (simp add: mangle_one_def method_counts_eq)
  then show ?thesis
    by simp
qed

text \<open>
  Claim C3 at a failing input. In the example file the overloads \<open>void foo(Bar x)\<close>
  and \<open>void foo(Baz x)\<close> have different parameter lists; both types resolve into the
  package of the file, the mangler keeps of \<open>Lorg/example/Bar;\<close> and
  \<open>Lorg/example/Baz;\<close> only \<open>OEB\<close>, and the two methods get the same identifier.
\<close>

theorem MangleCalledByNatives_overloads_collide:
  "map cbn_name example_overloads_foo = [''foo'', ''foo''] \<and>
   map cbn_java_class_name example_overloads_foo = [[], []] \<and>
   map (map p_datatype \<circ> cbn_params) example_overloads_foo = [[''Bar''], [''Baz'']] \<and>
   map_sum id (map cbn_method_id_var_name)
     (MangleCalledByNatives example_params example_overloads_foo)
     = Inr [Some ''fooV_OEB'', Some ''fooV_OEB'']"
  by code_simp

text \<open>
  What the assertion of \<open>GetMangledMethodName\<close> checks: a name that is returned
  starts with an identifier character. It says nothing about the characters after the
  first.
\<close>

lemma GetMangledMethodName_first_char:
  "GetMangledMethodName st name params return_type = Inr mangled_name \<Longrightarrow>
   mangled_name \<noteq> [] \<and> is_identifier_char (hd mangled_name)"
  by (cases mangled_name)
     (auto simp: GetMangledMethodName_def re_match_identifier_def Let_def
           split: sum.splits if_splits list.splits)

text \<open>
  Claim C4 at a failing input. The descriptor of the imported class \<open>URL\<close> is
  \<open>Ljava/net/URL;\<close>; its last letter is \<open>L\<close>, so the mangler also keeps the
  character after it, the semicolon. The identifier of \<open>void load(URL x)\<close> contains
  the semicolon, and the mangler returns it: no assertion fails.
\<close>

theorem MangleCalledByNatives_returns_non_identifier:
  "map_sum id (map cbn_method_id_var_name)
     (MangleCalledByNatives example_params_url example_overloads_load)
     = Inr [Some ''loadV_JNURL;'', Some ''loadV_JLS''] \<and>
   \<not> list_all is_identifier_char ''loadV_JNURL;'' \<and>
   GetMangledMethodName example_params_url ''load''
     [\<lparr>p_datatype = ''URL'', p_name = ''x''\<rparr>] ''void'' = Inr ''loadV_JNURL;''"
  by code_simp

section \<open>Direct imports of nested classes\<close>

lemma fold_add_import:
  "fold add_import cs st
     = st\<lparr>jp_imports := jp_imports st @ map (\<lambda>cls. ''L'' @ py_replace ''.'' ''/'' cls) cs\<rparr>"
  by (induction cs arbitrary: st) (simp_all add: add_import_def)

lemma fold_add_inner_imports: "jp_imports (fold add_inner ns st) = jp_imports st"
  by (induction ns arbitrary: st) (simp_all add: add_inner_def)

lemma inner_class_import_True:
  "py_split ''/'' q = components \<Longrightarrow> 2 < length components \<Longrightarrow>
   components ! (length components - 2) = c # cs \<Longrightarrow> isupper c \<Longrightarrow>
   inner_class_import q = Inr True"
  by (simp add: inner_class_import_def)

text \<open>
  Claim C5, as amended. Import processing does not look at what is imported: with a
  package set and no \<open>@JNIAdditionalImport\<close> in the file,
  \<open>ExtractImportsAndInnerClasses\<close> succeeds and records every import, nested class or
  not. The import of a nested class is rejected when a type is resolved through it: if
  no earlier rule applies to the name and the first import that matches it has more than
  two path segments and an upper-case initial in its second-to-last segment,
  \<open>JavaToJni\<close> fails with the error that names the import and the type.
\<close>

theorem inner_class_import_rejected_when_used:
  "(jp_package st \<noteq> [] \<and>
    finditer_re_additional_imports re (py_replace [CHR 0x0A] [] contents) = [] \<longrightarrow>
      (\<exists>st'. ExtractImportsAndInnerClasses re contents st = Inr st' \<and>
             jp_imports st'
               = jp_imports st
                 @ map (\<lambda>cls. ''L'' @ py_replace ''.'' ''/'' cls)
                     (finditer_re_import re (py_replace [CHR 0x0A] [] contents)))) \<and>
   (strip_arrays [] param = (prefix, param1) \<and>
    name = strip_generic param1 \<and>
    map_of pod_param_map name = None \<and>
    CHR ''/'' \<notin> set name \<and>
    find (known_class_match name)
      (object_param_list @ [jp_fully_qualified_class st] @ jp_inner_classes st) = None \<and>
    find (import_match name) (jp_imports st) = Some q \<and>
    py_split ''/'' q = components \<and>
    2 < length components \<and>
    components ! (length components - 2) = c # cs \<and>
    isupper c \<longrightarrow>
      JavaToJni st param = Inl (SyntaxError (inner_import_message q name)))"
proof (intro conjI impI)
  assume a: "jp_package st \<noteq> [] \<and>
    finditer_re_additional_imports re (py_replace [CHR 0x0A] [] contents) = []"
  then show "\<exists>st'. ExtractImportsAndInnerClasses re contents st = Inr st' \<and>
             jp_imports st'
               = jp_imports st
                 @ map (\<lambda>cls. ''L'' @ py_replace ''.'' ''/'' cls)
                     (finditer_re_import re (py_replace [CHR 0x0A] [] contents))"
    by (simp add: ExtractImportsAndInnerClasses_def Let_def fold_add_inner_imports
          fold_add_import)
next
  assume b: "strip_arrays [] param = (prefix, param1) \<and>
    name = strip_generic param1 \<and>
    map_of pod_param_map name = None \<and>
    CHR ''/'' \<notin> set name \<and>
    find (known_class_match name)
      (object_param_list @ [jp_fully_qualified_class st] @ jp_inner_classes st) = None \<and>
    find (import_match name) (jp_imports st) = Some q \<and>
    py_split ''/'' q = components \<and>
    2 < length components \<and>
    components ! (length components - 2) = c # cs \<and>
    isupper c"
  then have strip: "strip_arrays [] param = (prefix, param1)"
    and name: "name = strip_generic param1"
    and pod: "map_of pod_param_map name = None"
    and slash: "CHR ''/'' \<notin> set name"
    and known: "find (known_class_match name)
      (object_param_list @ [jp_fully_qualified_class st] @ jp_inner_classes st) = None"
    and imp: "find (import_match name) (jp_imports st) = Some q"
    and split: "py_split ''/'' q = components"
    and long: "2 < length components"
    and segment: "components ! (length components - 2) = c # cs"
    and capital: "isupper c"
    by blast+
  have inner: "inner_class_import q = Inr True"
    using split long segment capital by (rule inner_class_import_True)
  have "JavaToJni st param = resolve st prefix name"
    by (simp add: JavaToJni_def strip name)
  then show "JavaToJni st param = Inl (SyntaxError (inner_import_message q name))"
    unfolding resolve_reaches_import [OF pod slash known imp]
    by (simp add: inner)
qed

text \<open>
  The file \<open>example_source_inner_import\<close> imports \<open>java.util.Map.Entry\<close>: the
  import is recorded, and the type \<open>Entry\<close> is rejected when it is resolved.
\<close>

theorem inner_class_import_rejected_when_used_witness:
  "jp_package example_params = ''org/example'' \<and>
   finditer_re_additional_imports example_re
     (py_replace [CHR 0x0A] [] example_source_inner_import) = [] \<and>
   (\<exists>st'. ExtractImportsAndInnerClasses example_re example_source_inner_import example_params
             = Inr st' \<and>
          jp_imports st' = [''Ljava/util/Map/Entry'']) \<and>
   find (import_match ''Entry'') (jp_imports example_params_inner_import)
     = Some ''Ljava/util/Map/Entry'' \<and>
   py_split ''/'' ''Ljava/util/Map/Entry'' = [''Ljava'', ''util'', ''Map'', ''Entry''] \<and>
   JavaToJni example_params_inner_import ''Entry''
     = Inl (SyntaxError (inner_import_message ''Ljava/util/Map/Entry'' ''Entry''))"
proof -
  let ?st = "example_params_inner_import"
  have package: "jp_package example_params = ''org/example''"
    by code_simp
  have additional:
    "finditer_re_additional_imports example_re
       (py_replace [CHR 0x0A] [] example_source_inner_import) = []"
    by (simp add: example_re_def)
  have none: "jp_imports example_params = []"
    by (simp add: example_params_defs)
  have found:
    "map (\<lambda>cls. ''L'' @ py_replace ''.'' ''/'' cls)
       (finditer_re_import example_re (py_replace [CHR 0x0A] [] example_source_inner_import))
     = [''Ljava/util/Map/Entry'']"
    by code_simp
  have accepted:
    "\<exists>st'. ExtractImportsAndInnerClasses example_re example_source_inner_import example_params
             = Inr st' \<and>
           jp_imports st' = [''Ljava/util/Map/Entry'']"
    using inner_class_import_rejected_when_used
            [of example_params example_re example_source_inner_import]
          package additional none found
    by simp
  have strip: "strip_arrays [] ''Entry'' = ([], ''Entry'')"
    by code_simp
  have name: "''Entry'' = strip_generic ''Entry''"
    by code_simp
  have pod: "map_of pod_param_map ''Entry'' = None"
    by code_simp
  have slash: "CHR ''/'' \<notin> set ''Entry''"
    by simp
  have known: "find (known_class_match ''Entry'')
                 (object_param_list @ [jp_fully_qualified_class ?st] @ jp_inner_classes ?st)
               = None"
    by code_simp
  have imp: "find (import_match ''Entry'') (jp_imports ?st) = Some ''Ljava/util/Map/Entry''"
    by code_simp
  have split: "py_split ''/'' ''Ljava/util/Map/Entry'' = [''Ljava'', ''util'', ''Map'', ''Entry'']"
    by code_simp
  have capital: "isupper CHR ''M''"
    by code_simp
  have rejected:
    "JavaToJni ?st ''Entry''
       = Inl (SyntaxError (inner_import_message ''Ljava/util/Map/Entry'' ''Entry''))"
    using inner_class_import_rejected_when_used
            [of ?st example_re "[]" "''Entry''" "[]" "''Entry''" "''Entry''"
                "''Ljava/util/Map/Entry''" "[''Ljava'', ''util'', ''Map'', ''Entry'']"
                "CHR ''M''" "''ap''"]
          strip name pod slash known imp split capital
    by simp
  from package additional accepted imp split rejected show ?thesis
    by simp
qed

text \<open>
  The claim as stated fails on the same file: processing its imports succeeds, the
  called-by-native method is extracted and gets its identifier, and its type \<open>int\<close>
  is resolved, although the file imports the nested class \<open>Entry\<close> of \<open>Map\<close>.
\<close>

theorem inner_class_import_accepted_counterexample:
  "ExtractImportsAndInnerClasses example_re example_source_inner_import example_params
     = Inr example_params_inner_import \<and>
   jp_imports example_params_inner_import = [''Ljava/util/Map/Entry''] \<and>
   py_split ''/'' ''Ljava/util/Map/Entry'' = [''Ljava'', ''util'', ''Map'', ''Entry''] \<and>
   inner_class_import ''Ljava/util/Map/Entry'' = Inr True \<and>
   map_sum id (map cbn_method_id_var_name)
     (ExtractCalledByNatives example_re example_params_inner_import
        example_source_inner_import)
     = Inr [Some ''size''] \<and>
   JavaToJni example_params_inner_import ''int'' = Inr ''I''"
  by code_simp

section \<open>Names that are only implicitly visible\<close>








section \<open>Class-path constants and class handles\<close>

lemma GetUniqueClasses_fold_keys:
  "fst ` set (fold (\<lambda>java_class_name ret.
                      if java_class_name \<noteq> []
                        then AList.update java_class_name (fqc @ ''$'' @ java_class_name) ret
                      else AList.update cn fqc ret) origin ret0)
   = fst ` set ret0 \<union> {c \<in> set origin. c \<noteq> []} \<union> (if [] \<in> set origin then {cn} else {})"
  by (induction origin arbitrary: ret0) (auto simp: dom_update)

lemma GetUniqueClasses_fold_distinct:
  "distinct (map fst ret0) \<Longrightarrow>
   distinct (map fst (fold (\<lambda>java_class_name ret.
                      if java_class_name \<noteq> []
                        then AList.update java_class_name (fqc @ ''$'' @ java_class_name) ret
                      else AList.update cn fqc ret) origin ret0))"
  by (induction origin arbitrary: ret0) (auto simp: distinct_update)

lemma GetUniqueClasses_keys:
  "fst ` set (GetUniqueClasses gen origin)
   = insert (gen_class_name gen) {c \<in> set origin. c \<noteq> []}"
  unfolding GetUniqueClasses_def GetUniqueClasses_fold_keys by auto

lemma GetUniqueClasses_distinct: "distinct (map fst (GetUniqueClasses gen origin))"
  unfolding GetUniqueClasses_def by (rule GetUniqueClasses_fold_distinct) simp

lemma dict_update_keys: "fst ` set (dict_update other d) = fst ` set other \<union> fst ` set d"
  unfolding dict_update_def
proof (induction other arbitrary: d)
  case Nil
  then show ?case by simp
next
  case (Cons kv other)
  obtain k v where kv: "kv = (k, v)"
    by (cases kv)
  have "fst ` set (fold (\<lambda>(k, v). AList.update k v) other (AList.update k v d))
          = fst ` set other \<union> fst ` set (AList.update k v d)"
    by (rule Cons.IH)
  also have "\<dots> = fst ` set (kv # other) \<union> fst ` set d"
    unfolding dom_update kv by auto
  finally show ?case
    by (simp add: kv)
qed

lemma dict_update_distinct:
  "distinct (map fst d) \<Longrightarrow> distinct (map fst (dict_update other d))"
  unfolding dict_update_def
  by (induction other arbitrary: d) (auto simp: distinct_update)

text \<open>
  Claim C7, as amended. The classes for which \<open>GetClassPathDefinitions\<close> emits
  definitions are the keys of \<open>all_classes\<close>: the class of the file, every non-empty
  class name of a called-by-native method and, only with the option
  \<open>native_exports_optional\<close>, every non-empty class name of a native method. No key
  occurs twice, however many declarations name the class, and the emitted list is one
  class-path constant for each key followed by one class handle for each key.
\<close>

theorem GetClassPathDefinitions_once_per_class:
  "distinct (map fst (all_classes gen)) \<and>
   set (map fst (all_classes gen))
     = insert (gen_class_name gen)
         ({c \<in> set (called_by_native_class_names gen). c \<noteq> []} \<union>
          (if opt_native_exports_optional (gen_options gen)
             then {c \<in> set (native_class_names gen). c \<noteq> []}
           else {})) \<and>
   class_path_definition_items gen
     = map (\<lambda>(clazz, jni_class_path). class_path_constant clazz jni_class_path)
           (all_classes gen)
       @ map (\<lambda>(clazz, jni_class_path). class_handle clazz) (all_classes gen) \<and>
   length (class_path_definition_items gen) = 2 * card (set (map fst (all_classes gen)))"
proof -
  have d: "distinct (map fst (all_classes gen))"
    by (simp add: all_classes_def Let_def dict_update_distinct GetUniqueClasses_distinct)
  have k: "set (map fst (all_classes gen))
     = insert (gen_class_name gen)
         ({c \<in> set (called_by_native_class_names gen). c \<noteq> []} \<union>
          (if opt_native_exports_optional (gen_options gen)
             then {c \<in> set (native_class_names gen). c \<noteq> []}
           else {}))"
    by (auto simp: all_classes_def Let_def dict_update_keys GetUniqueClasses_keys)
  have "card (set (map fst (all_classes gen))) = length (all_classes gen)"
    using distinct_card [OF d] by simp
  then have l: "length (class_path_definition_items gen)
                  = 2 * card (set (map fst (all_classes gen)))"
    by (simp add: class_path_definition_items_def)
  from d k l show ?thesis
    by (simp add: class_path_definition_items_def)
qed

text \<open>
  With the option, three called-by-native methods and a native method that name the
  classes \<open>Inner\<close>, \<open>Inner\<close>, the class of the file and \<open>Inner\<close> give two
  constants and two handles.
\<close>

theorem GetClassPathDefinitions_once_per_class_witness:
  "map fst (all_classes
              (example_generator [example_native_inner] example_called_by_natives_inner True))
     = [''Foo'', ''Inner''] \<and>
   called_by_native_class_names
     (example_generator [example_native_inner] example_called_by_natives_inner True)
     = [''Inner'', ''Inner'', []] \<and>
   native_class_names
     (example_generator [example_native_inner] example_called_by_natives_inner True)
     = [''Inner''] \<and>
   length (class_path_definition_items
             (example_generator [example_native_inner] example_called_by_natives_inner True))
     = 4"
proof -
  let ?gen = "example_generator [example_native_inner] example_called_by_natives_inner True"
  have keys: "map fst (all_classes ?gen) = [''Foo'', ''Inner'']"
    by code_simp
  have cbn: "called_by_native_class_names ?gen = [''Inner'', ''Inner'', []]"
    by code_simp
  have nat: "native_class_names ?gen = [''Inner'']"
    by code_simp
  have "length (class_path_definition_items ?gen)
          = 2 * card (set (map fst (all_classes ?gen)))"
    using GetClassPathDefinitions_once_per_class [of ?gen] by blast
  also have "\<dots> = 4"
    unfolding keys by simp
  finally have "length (class_path_definition_items ?gen) = 4" .
  with keys cbn nat show ?thesis
    by simp
qed

text \<open>
  Without the option a class that only a native method names gets no constant and no
  handle: for \<open>@NativeCall("Inner")\<close> on the only declaration of the file, the
  definitions are those of \<open>Foo\<close> alone.
\<close>

theorem GetClassPathDefinitions_native_class_counterexample:
  "native_class_names (example_generator [example_native_inner] [] False) = [''Inner''] \<and>
   map fst (all_classes (example_generator [example_native_inner] [] False)) = [''Foo''] \<and>
   class_path_definition_items (example_generator [example_native_inner] [] False)
     = [class_path_constant ''Foo'' ''org/example/Foo'', class_handle ''Foo'']"
  by code_simp

section \<open>Nothing is written when the content cannot be computed\<close>

text \<open>
  A content is computed from a source file only if every step succeeded: the import
  processing, the two extractions (the second one resolves the types of overloaded
  methods) and \<open>GetContent\<close>, which resolves the types of the signatures. A failure of
  extraction or of resolution is therefore a failure of \<open>compute_content\<close>.
\<close>

lemma JNIFromJavaSource_init_content:
  assumes "JNIFromJavaSource_init re get_content android_jar_classes contents fqc options
             = Inr content"
  shows "\<exists>st natives called_by_natives namespace.
           ExtractImportsAndInnerClasses re (RemoveComments re contents)
             (SetFullyQualifiedClass fqc (JniParams_initial android_jar_classes)) = Inr st \<and>
           ExtractNatives re (RemoveComments re contents) (opt_ptr_type options) = Inr natives \<and>
           ExtractCalledByNatives re st (RemoveComments re contents) = Inr called_by_natives \<and>
           get_content st
             (InlHeaderFileGenerator_init namespace fqc natives called_by_natives [] options)
             = Inr content"
  using assms
  by (auto simp: JNIFromJavaSource_init_def Let_def split: sum.splits if_splits)

lemma compute_content_source:
  assumes "compute_content env input_file options w = Inr content"
    and "snd (splitext input_file) \<noteq> ''.class''"
  shows "\<exists>contents fqc.
           w_files w input_file = Some contents \<and>
           ExtractFullyQualifiedJavaClassName (env_re env) input_file contents = Inr fqc \<and>
           JNIFromJavaSource_init (env_re env) (env_get_content env)
             (env_android_jar_classes env) contents fqc options = Inr content"
  using assms
  by (auto simp: compute_content_def CreateFromFile_def split: option.splits sum.splits)

text \<open>
  Claim C8. When the computation of the content raises an exception,
  \<open>GenerateJNIHeader\<close> ends the process with status 1: through \<open>sys.exit(1)\<close> for a
  \<open>ParseError\<close>, through the uncaught exception otherwise. The files and directories
  are those from before the call: no output file is created or changed. Nothing of a
  header reaches the standard output; for a \<open>ParseError\<close> the text of the error is
  printed there, for another exception nothing.
\<close>

theorem GenerateJNIHeader_writes_nothing_on_failure:
  assumes "compute_content env input_file options w = Inl e"
  shows "exit_status (fst (GenerateJNIHeader env input_file output_file options w)) = 1 \<and>
         w_files (snd (GenerateJNIHeader env input_file output_file options w)) = w_files w \<and>
         w_dirs (snd (GenerateJNIHeader env input_file output_file options w)) = w_dirs w \<and>
         w_stdout (snd (GenerateJNIHeader env input_file output_file options w))
           = w_stdout w @ (if is_ParseError e then [str_error e] else [])"
  using assms by (simp add: GenerateJNIHeader_def)

text \<open>
  The source \<open>example_source_bad\<close> has an annotation that no method follows:
  extraction raises \<open>ParseError\<close>, the status is 1, the header of the earlier run is
  still there, unchanged, and only the error was printed.
\<close>

theorem GenerateJNIHeader_writes_nothing_on_failure_witness:
  "compute_content example_environment ''java/org/example/Foo.java'' (example_options False)
     example_world
     = Inl (ParseError ''could not parse @CalledByNative method signature''
              [''  @CalledByNative'', ''  int;'']) \<and>
   exit_status
     (fst (GenerateJNIHeader example_environment ''java/org/example/Foo.java''
             (Some ''gen/Foo_jni.h'') (example_options False) example_world)) = 1 \<and>
   w_files
     (snd (GenerateJNIHeader example_environment ''java/org/example/Foo.java''
             (Some ''gen/Foo_jni.h'') (example_options False) example_world))
     ''gen/Foo_jni.h'' = Some ''// stale header'' \<and>
   w_files
     (snd (GenerateJNIHeader example_environment ''java/org/example/Foo.java''
             (Some ''gen/Foo_jni.h'') (example_options False) example_world))
     = w_files example_world \<and>
   w_stdout
     (snd (GenerateJNIHeader example_environment ''java/org/example/Foo.java''
             (Some ''gen/Foo_jni.h'') (example_options False) example_world))
     = [str_error (ParseError ''could not parse @CalledByNative method signature''
                     [''  @CalledByNative'', ''  int;''])]"
proof -
  have failure:
    "compute_content example_environment ''java/org/example/Foo.java'' (example_options False)
       example_world
     = Inl (ParseError ''could not parse @CalledByNative method signature''
              [''  @CalledByNative'', ''  int;''])"
    by code_simp
  have stale: "w_files example_world ''gen/Foo_jni.h'' = Some ''// stale header''"
    by (simp add: example_world_def)
  have silent: "w_stdout example_world = []"
    by (simp add: example_world_def)
  from GenerateJNIHeader_writes_nothing_on_failure
         [OF failure, of "Some ''gen/Foo_jni.h''"] failure stale silent
  show ?thesis by simp
qed

section \<open>The stored name of a native method\<close>

lemma native_of_match_name:
  "native_of_match ptr_type m = Inr n \<Longrightarrow> nm_name n = py_replace ''native'' [] (g_name m)"
  by (auto simp: native_of_match_def NativeMethod_init_def Let_def split: sum.splits)

lemma native_of_match_class:
  "native_of_match ptr_type m = Inr n \<Longrightarrow> nm_java_class_name n = g_java_class_name m"
  by (auto simp: native_of_match_def NativeMethod_init_def Let_def split: sum.splits)

text \<open>
  Claim C9. When \<open>ExtractNatives\<close> returns, it returns one method for each match of
  the pattern, in order, and the name stored for a match is the declared name (the group
  \<open>name\<close>, which starts with \<open>native\<close>) with every occurrence of \<open>native\<close>
  replaced by the empty string, wherever it occurs in the name. The stub symbol of the
  method is \<open>Java_\<close>, the escaped class name, \<open>_native\<close> and that stored name.
\<close>

theorem ExtractNatives_strips_every_native:
  assumes "ExtractNatives re contents ptr_type = Inr natives"
  shows "list_all2
           (\<lambda>m n. nm_name n = py_replace ''native'' [] (g_name m) \<and>
                  GetStubName gen n =
                    ''Java_''
                    @ py_replace ''/'' ''_'' (py_replace ''_'' ''_1'' (gen_fully_qualified_class gen))
                    @ (case g_java_class_name m of
                         None \<Rightarrow> []
                       | Some c \<Rightarrow> if c = [] then [] else ''_00024'' @ c)
                    @ ''_native'' @ py_replace ''native'' [] (g_name m))
           (finditer_re_native re (py_replace [CHR 0x0A] [] contents)) natives"
proof -
  from assms have
    "list_all2 (\<lambda>m n. native_of_match ptr_type m = Inr n)
       (finditer_re_native re (py_replace [CHR 0x0A] [] contents)) natives"
    unfolding ExtractNatives_def by (rule map_raise_Inr)
  then show ?thesis
  proof (rule list_all2_mono)
    fix m n
    assume mn: "native_of_match ptr_type m = Inr n"
    have name: "nm_name n = py_replace ''native'' [] (g_name m)"
      using mn by (rule native_of_match_name)
    have cls: "nm_java_class_name n = g_java_class_name m"
      using mn by (rule native_of_match_class)
    show "nm_name n = py_replace ''native'' [] (g_name m) \<and>
          GetStubName gen n =
            ''Java_''
            @ py_replace ''/'' ''_'' (py_replace ''_'' ''_1'' (gen_fully_qualified_class gen))
            @ (case g_java_class_name m of
                 None \<Rightarrow> []
               | Some c \<Rightarrow> if c = [] then [] else ''_00024'' @ c)
            @ ''_native'' @ py_replace ''native'' [] (g_name m)"
      using name cls by (simp add: GetStubName_def Let_def split: option.split)
  qed
qed

text \<open>
  The file \<open>example_source_alternative\<close> declares
  \<open>nativeUpdateAlternative\<close>: the stored name is \<open>UpdateAlter\<close>, not the declared
  name without its prefix, and the stub symbol ends in \<open>nativeUpdateAlter\<close>.
\<close>

theorem ExtractNatives_strips_every_native_witness:
  "ExtractNatives example_re example_source_alternative ''long'' = Inr [example_update_alter] \<and>
   finditer_re_native example_re (py_replace [CHR 0x0A] [] example_source_alternative)
     = [example_match_alternative] \<and>
   g_name example_match_alternative = ''nativeUpdateAlternative'' \<and>
   nm_name example_update_alter = ''UpdateAlter'' \<and>
   nm_name example_update_alter \<noteq> drop (length ''native'') (g_name example_match_alternative) \<and>
   GetStubName (example_generator [example_update_alter] [] False) example_update_alter
     = ''Java_org_example_Foo_nativeUpdateAlter''"
proof -
  let ?gen = "example_generator [example_update_alter] [] False"
  have ex: "ExtractNatives example_re example_source_alternative ''long''
              = Inr [example_update_alter]"
    by code_simp
  have ms: "finditer_re_native example_re (py_replace [CHR 0x0A] [] example_source_alternative)
              = [example_match_alternative]"
    by code_simp
  have nm: "g_name example_match_alternative = ''nativeUpdateAlternative''"
    by (simp add: example_match_alternative_def)
  have cls: "g_java_class_name example_match_alternative = None"
    by (simp add: example_match_alternative_def)
  have stripped: "py_replace ''native'' [] (g_name example_match_alternative) = ''UpdateAlter''"
    by code_simp
  have escaped:
    "py_replace ''/'' ''_'' (py_replace ''_'' ''_1'' (gen_fully_qualified_class ?gen))
       = ''org_example_Foo''"
    by code_simp
  have "nm_name example_update_alter = ''UpdateAlter'' \<and>
        GetStubName ?gen example_update_alter = ''Java_org_example_Foo_nativeUpdateAlter''"
    using ExtractNatives_strips_every_native [OF ex, of ?gen]
    unfolding ms by (simp add: stripped escaped cls)
  with ex ms nm show ?thesis
    by simp
qed

section \<open>A source file without JNI methods\<close>

lemma MangleCalledByNatives_length:
  "MangleCalledByNatives st cs = Inr cs' \<Longrightarrow> length cs' = length cs"
  unfolding MangleCalledByNatives_def by (rule map_raise_length)

lemma ExtractCalledByNatives_empty_any_state:
  assumes "ExtractCalledByNatives re st contents = Inr []"
  shows "ExtractCalledByNatives re st' contents = Inr []"
proof (cases "map_raise called_by_native_of_match (finditer_RE_CALLED_BY_NATIVE re contents)")
  case (Inl e)
  with assms show ?thesis
    by (simp add: ExtractCalledByNatives_def)
next
  case (Inr cs)
  show ?thesis
  proof (cases "check_unmatched (py_split [CHR 0x0A] (sub_RE_CALLED_BY_NATIVE re contents))")
    case (Inl e)
    with assms Inr show ?thesis
      by (simp add: ExtractCalledByNatives_def)
  next
    case ok: (Inr u)
    with assms Inr have "MangleCalledByNatives st cs = Inr []"
      by (simp add: ExtractCalledByNatives_def)
    then have "cs = []"
      by (drule_tac MangleCalledByNatives_length) simp
    with Inr ok show ?thesis
      by (simp add: ExtractCalledByNatives_def MangleCalledByNatives_def)
  qed
qed

text \<open>
  Claim C10. \<open>JNIFromJavaSource.__init__\<close> removes the comments, processes the imports
  and then extracts the declarations. When the extraction of the native methods and the
  extraction of the called-by-native methods both return the empty list, generation
  fails: with the error of the import processing if that step already failed (the
  extraction is not reached then), and otherwise with the \<open>SyntaxError\<close>
  \<open>Unable to find any JNI methods for\<close> followed by the class name. No header is
  produced in either case, whatever \<open>GetContent\<close> would render. The result of the
  extraction of the called-by-native methods, when it is the empty list, does not depend
  on the resolution state, so the hypothesis names any state.
\<close>

theorem JNIFromJavaSource_init_no_methods:
  assumes "ExtractNatives re (RemoveComments re contents) (opt_ptr_type options) = Inr []"
    and "ExtractCalledByNatives re st (RemoveComments re contents) = Inr []"
  shows "JNIFromJavaSource_init re get_content android_jar_classes contents fqc options
           = (case ExtractImportsAndInnerClasses re (RemoveComments re contents)
                     (SetFullyQualifiedClass fqc (JniParams_initial android_jar_classes)) of
                Inl e \<Rightarrow> Inl e
              | Inr st' \<Rightarrow>
                  Inl (SyntaxError (''Unable to find any JNI methods for '' @ fqc @ ''.'')))"
proof (cases "ExtractImportsAndInnerClasses re (RemoveComments re contents)
                (SetFullyQualifiedClass fqc (JniParams_initial android_jar_classes))")
  case (Inl e)
  then show ?thesis
    by (simp add: JNIFromJavaSource_init_def Let_def)
next
  case (Inr st')
  have "ExtractCalledByNatives re st' (RemoveComments re contents) = Inr []"
    using assms(2) by (rule ExtractCalledByNatives_empty_any_state)
  with Inr assms(1) show ?thesis
    by (simp add: JNIFromJavaSource_init_def Let_def)
qed

text \<open>The file \<open>example_source_empty\<close> declares a class without any method.\<close>

theorem JNIFromJavaSource_init_no_methods_witness:
  "ExtractNatives example_re (RemoveComments example_re example_source_empty)
     (opt_ptr_type (example_options False)) = Inr [] \<and>
   ExtractCalledByNatives example_re example_params
     (RemoveComments example_re example_source_empty) = Inr [] \<and>
   JNIFromJavaSource_init example_re example_get_content example_android_jar_classes
     example_source_empty ''org/example/Foo'' (example_options False)
     = Inl (SyntaxError ''Unable to find any JNI methods for org/example/Foo.'')"
proof -
  have natives:
    "ExtractNatives example_re (RemoveComments example_re example_source_empty)
       (opt_ptr_type (example_options False)) = Inr []"
    by code_simp
  have called:
    "ExtractCalledByNatives example_re example_params
       (RemoveComments example_re example_source_empty) = Inr []"
    by code_simp
  have processed:
    "ExtractImportsAndInnerClasses example_re (RemoveComments example_re example_source_empty)
       (SetFullyQualifiedClass ''org/example/Foo'' (JniParams_initial example_android_jar_classes))
     = Inr example_params"
    by code_simp
  from JNIFromJavaSource_init_no_methods
         [OF natives called, of example_get_content example_android_jar_classes
             "''org/example/Foo''"]
       natives called processed
  show ?thesis by simp
qed

end
